theory Spec2Isabelle
  imports Main "HOL-Library.Sublist" "HOL-Library.Multiset"
begin

section \<open>Python library functions used by the script\<close>

text \<open>
  The script \<open>make_scripts/move_localization.py\<close> calls a handful of functions of the
  Python standard library. They are modelled here after their documented behaviour on a
  POSIX system, as far as the script uses them.
\<close>

type_synonym path = string

definition newline :: char where
  "newline = CHR 0x0A"

definition apostrophe :: char where
  "apostrophe = CHR 0x27"

text \<open>\<open>f"'{s}'"\<close>: a string between two apostrophes.\<close>

definition quoted :: "string \<Rightarrow> string" where
  "quoted s = apostrophe # s @ [apostrophe]"

text \<open>
  \<open>os.path.join(a, b)\<close> (posixpath): an absolute \<open>b\<close> replaces \<open>a\<close>; otherwise \<open>b\<close> is
  appended, after a separator unless \<open>a\<close> is empty or already ends with one.
\<close>

definition path_join :: "path \<Rightarrow> path \<Rightarrow> path" where
  "path_join a b =
     (if b \<noteq> [] \<and> hd b = CHR ''/'' then b
      else if a = [] \<or> last a = CHR ''/'' then a @ b
      else a @ ''/'' @ b)"

text \<open>\<open>str.rfind(c)\<close> for a single character: the highest index of \<open>c\<close>, or \<open>-1\<close>.\<close>

definition rfind :: "char \<Rightarrow> string \<Rightarrow> int" where
  "rfind c s =
     (if c \<in> set s
      then int (length s) - 1 - int (length (takeWhile (\<lambda>x. x \<noteq> c) (rev s)))
      else - 1)"

text \<open>
  \<open>os.path.splitext\<close> (\<open>genericpath._splitext\<close> with separator \<open>/\<close> and extension
  separator \<open>.\<close>): the extension starts at the last dot of the last path component,
  unless that component has only dots before it. The inner \<open>while\<close> loop skips the
  leading dots.
\<close>

function splitext_loop :: "string \<Rightarrow> int \<Rightarrow> int \<Rightarrow> string \<times> string" where
  "splitext_loop p filenameIndex dotIndex =
     (if filenameIndex < dotIndex
      then (if take 1 (drop (nat filenameIndex) p) \<noteq> ''.''
            then (take (nat dotIndex) p, drop (nat dotIndex) p)
            else splitext_loop p (filenameIndex + 1) dotIndex)
      else (p, []))"
  by pat_completeness auto
termination
  by (relation "measure (\<lambda>(p, filenameIndex, dotIndex). nat (dotIndex - filenameIndex))") auto

definition splitext :: "string \<Rightarrow> string \<times> string" where
  "splitext p =
     (let sepIndex = rfind CHR ''/'' p;
          dotIndex = rfind CHR ''.'' p
      in if dotIndex > sepIndex then splitext_loop p (sepIndex + 1) dotIndex
         else (p, []))"

text \<open>
  \<open>str.replace(old, new, 1)\<close>: the leftmost occurrence of \<open>old\<close> is replaced by \<open>new\<close>;
  a string without an occurrence is returned as it is. The empty string occurs at
  index 0 of every string.
\<close>

fun replace_first :: "string \<Rightarrow> string \<Rightarrow> string \<Rightarrow> string" where
  "replace_first old new [] = (if old = [] then new else [])"
| "replace_first old new (c # cs) =
     (if prefix old (c # cs) then new @ drop (length old) (c # cs)
      else c # replace_first old new cs)"

text \<open>
  \<open>str.strip()\<close> removes leading and trailing whitespace. These are the characters
  below code point 256 for which \<open>str.isspace\<close> holds.
\<close>

definition is_space :: "char \<Rightarrow> bool" where
  "is_space c = (of_char c \<in> {9, 10, 11, 12, 13, 28, 29, 30, 31, 32, 133, 160 :: nat})"

definition strip :: "string \<Rightarrow> string" where
  "strip s = rev (dropWhile is_space (rev (dropWhile is_space s)))"

text \<open>
  Iterating over a text file yields its lines, each with its terminating newline
  (the last line may lack one).
\<close>

fun file_lines :: "string \<Rightarrow> string list" where
  "file_lines [] = []"
| "file_lines (c # cs) =
     (if c = newline then [c] # file_lines cs
      else (case file_lines cs of [] \<Rightarrow> [[c]] | l # ls \<Rightarrow> (c # l) # ls))"

text \<open>\<open>str(n)\<close> for a non-negative integer, as an f-string formats \<open>len(...)\<close>.\<close>

fun string_of_nat :: "nat \<Rightarrow> string" where
  "string_of_nat n =
     (if n < 10 then [''0123456789'' ! n]
      else string_of_nat (n div 10) @ [''0123456789'' ! (n mod 10)])"

declare string_of_nat.simps [simp del]


section \<open>The Fluent syntax tree and the object heap\<close>

text \<open>
  The entries of a \<open>fluent.syntax.ast.Resource\<close> body. A message and a term carry
  their identifier's name; everything else an entry holds (value, attributes, comment,
  junk text) is opaque to the script and kept as one string.
\<close>

datatype entry =
    Message string string
  | Term string string
  | Comment string
  | GroupComment string
  | ResourceComment string
  | Junk string

text \<open>\<open>isinstance(entry, (ast.Message, ast.Term))\<close> together with \<open>entry.id.name\<close>.\<close>

fun id_name :: "entry \<Rightarrow> string option" where
  "id_name (Message n v) = Some n"
| "id_name (Term n v) = Some n"
| "id_name e = None"

text \<open>The assignment \<open>entry.id.name = new_id_name\<close>.\<close>

fun set_id_name :: "string \<Rightarrow> entry \<Rightarrow> entry" where
  "set_id_name n' (Message n v) = Message n' v"
| "set_id_name n' (Term n v) = Term n' v"
| "set_id_name n' e = e"

fun is_Junk :: "entry \<Rightarrow> bool" where
  "is_Junk (Junk c) = True"
| "is_Junk e = False"

text \<open>
  Python lists hold references to objects, and the loop renames an entry by assigning to
  a field of the object. The objects live in a heap: \<open>cells\<close> maps a reference to the
  object it points to and \<open>next_ref\<close> is the next unused reference. Cells at or above \<open>next_ref\<close>
  are not allocated and the script never reads them.
\<close>

type_synonym ref = nat

record heap =
  cells :: "ref \<Rightarrow> entry"
  next_ref :: ref

definition new_heap :: heap where
  "new_heap = \<lparr>cells = (\<lambda>_. Junk []), next_ref = 0\<rparr>"

definition alloc :: "entry \<Rightarrow> heap \<Rightarrow> ref \<times> heap" where
  "alloc e h = (next_ref h, \<lparr>cells = (cells h)(next_ref h := e), next_ref = Suc (next_ref h)\<rparr>)"

text \<open>The parser builds one new object for each entry of the resource.\<close>

fun alloc_list :: "entry list \<Rightarrow> heap \<Rightarrow> ref list \<times> heap" where
  "alloc_list [] h = ([], h)"
| "alloc_list (e # es) h =
     (let (r, h1) = alloc e h; (rs, h2) = alloc_list es h1 in (r # rs, h2))"

text \<open>
  The parser and the serializer of \<open>fluent.syntax\<close> are an external library; the
  script is verified for any pair of them.
\<close>

record fluent =
  parse :: "string \<Rightarrow> entry list"
  serialize :: "entry list \<Rightarrow> string"

text \<open>
  The serializer the script builds on line 18 is \<open>FluentSerializer()\<close>, whose
  \<open>with_junk\<close> option is left at its default \<open>False\<close>. Its method \<open>serialize\<close> joins
  what \<open>serialize_entry\<close> gives for the entries of the body, one after the other, and
  passes over a \<open>Junk\<close> entry unless \<open>with_junk\<close> is set. The state tells
  \<open>serialize_entry\<close> whether an entry has been written before (\<open>HAS_ENTRIES\<close>).
  How one entry is written stays a parameter.
\<close>

fun serialize_entries ::
  "(bool \<Rightarrow> entry \<Rightarrow> string) \<Rightarrow> bool \<Rightarrow> bool \<Rightarrow> entry list \<Rightarrow> string" where
  "serialize_entries serialize_entry with_junk state [] = []"
| "serialize_entries serialize_entry with_junk state (entry # body) =
     (if \<not> is_Junk entry \<or> with_junk
      then serialize_entry state entry
           @ serialize_entries serialize_entry with_junk True body
      else serialize_entries serialize_entry with_junk state body)"

definition FluentSerializer ::
  "(bool \<Rightarrow> entry \<Rightarrow> string) \<Rightarrow> bool \<Rightarrow> entry list \<Rightarrow> string" where
  "FluentSerializer serialize_entry with_junk body =
     serialize_entries serialize_entry with_junk False body"

text \<open>The library as the script sets it up: any parser, and the default serializer.\<close>

definition default_fluent ::
  "(string \<Rightarrow> entry list) \<Rightarrow> (bool \<Rightarrow> entry \<Rightarrow> string) \<Rightarrow> fluent" where
  "default_fluent parser serialize_entry =
     \<lparr>parse = parser, serialize = FluentSerializer serialize_entry False\<rparr>"


section \<open>The entry loop (lines 61 to 77)\<close>

text \<open>
  When \<open>rename_keys\<close> is set, lines 27 to 29 compute the two prefixes; otherwise both
  stay \<open>None\<close> and the loop never uses them. The model carries the flag and the prefixes
  as one optional pair, present exactly when \<open>rename_keys\<close> is set.
\<close>

definition rename_prefixes :: "bool \<Rightarrow> string \<Rightarrow> string \<Rightarrow> (string \<times> string) option" where
  "rename_prefixes rename_keys source_filename destination_filename =
     (if rename_keys
      then Some (fst (splitext source_filename), fst (splitext destination_filename))
      else None)"

record loop_state =
  objects :: heap
  moved_entries :: "ref list"
  remaining_entries :: "ref list"
  printed :: "string list"

definition loop_body ::
  "string set \<Rightarrow> (string \<times> string) option \<Rightarrow> ref \<Rightarrow> loop_state \<Rightarrow> loop_state" where
  "loop_body keys_to_move renaming entry st =
     (case id_name (cells (objects st) entry) of
        Some old_id \<Rightarrow>
          if old_id \<in> keys_to_move then
            (case renaming of
               Some (source_prefix, destination_prefix) \<Rightarrow>
                 let new_id_name = replace_first source_prefix destination_prefix old_id;
                     h = objects st
                 in st\<lparr>objects :=
                         h\<lparr>cells := (cells h)(entry := set_id_name new_id_name (cells h entry))\<rparr>,
                       printed := printed st @
                         [''Renamed '' @ quoted old_id @ '' to '' @ quoted new_id_name],
                       moved_entries := moved_entries st @ [entry]\<rparr>
             | None \<Rightarrow> st\<lparr>moved_entries := moved_entries st @ [entry]\<rparr>)
          else st\<lparr>remaining_entries := remaining_entries st @ [entry]\<rparr>
      | None \<Rightarrow> st\<lparr>remaining_entries := remaining_entries st @ [entry]\<rparr>)"

fun entry_loop ::
  "string set \<Rightarrow> (string \<times> string) option \<Rightarrow> ref list \<Rightarrow> loop_state \<Rightarrow> loop_state" where
  "entry_loop keys_to_move renaming [] st = st"
| "entry_loop keys_to_move renaming (entry # body) st =
     entry_loop keys_to_move renaming body (loop_body keys_to_move renaming entry st)"

text \<open>The state in which the loop starts: both lists empty (lines 61 and 62).\<close>

definition loop_start :: "heap \<Rightarrow> loop_state" where
  "loop_start h = \<lparr>objects = h, moved_entries = [], remaining_entries = [], printed = []\<rparr>"


section \<open>Files, standard output and the script\<close>

text \<open>
  The world the script runs in: the text files by path (as \<open>open(..., 'r',
  encoding='utf-8').read()\<close> returns them), what \<open>glob.glob\<close> yields for a pattern, the
  lines printed so far, and a log of the file accesses the script has made.

  A path exists when it is in \<open>files\<close>: the paths the script tests and opens are taken
  to be absent or readable, writable text files. Reading an absent file raises
  \<open>FileNotFoundError\<close>; writing creates the file or replaces its text.
\<close>

datatype io_event = Read path | Write path string | Glob string

datatype error = FileNotFoundError path

record world =
  files :: "path \<rightharpoonup> string"
  glob_result :: "string \<Rightarrow> path list"
  stdout :: "string list"
  io_log :: "io_event list"

definition print_line :: "string \<Rightarrow> world \<Rightarrow> world" where
  "print_line s w = w\<lparr>stdout := stdout w @ [s]\<rparr>"

definition path_exists :: "world \<Rightarrow> path \<Rightarrow> bool" where
  "path_exists w p = (files w p \<noteq> None)"

definition read_file :: "path \<Rightarrow> world \<Rightarrow> error + (string \<times> world)" where
  "read_file p w =
     (case files w p of
        None \<Rightarrow> Inl (FileNotFoundError p)
      | Some text \<Rightarrow> Inr (text, w\<lparr>io_log := io_log w @ [Read p]\<rparr>))"

definition write_file :: "path \<Rightarrow> string \<Rightarrow> world \<Rightarrow> world" where
  "write_file p text w = w\<lparr>files := (files w)(p \<mapsto> text), io_log := io_log w @ [Write p text]\<rparr>"

definition glob :: "string \<Rightarrow> world \<Rightarrow> path list \<times> world" where
  "glob pattern w = (glob_result w pattern, w\<lparr>io_log := io_log w @ [Glob pattern]\<rparr>)"

text \<open>Line 32: the set of the stripped, non-empty lines of the key-list file.\<close>

definition keys_of_text :: "string \<Rightarrow> string list" where
  "keys_of_text text = filter (\<lambda>k. k \<noteq> []) (map strip (file_lines text))"

text \<open>
  Lines 80 to 85: the destination resource is parsed from the destination file when
  that exists and is empty otherwise.
\<close>

definition load_destination ::
  "fluent \<Rightarrow> path \<Rightarrow> heap \<Rightarrow> world \<Rightarrow> error + ((ref list \<times> heap) \<times> world)" where
  "load_destination lib destination_file h w =
     (if path_exists w destination_file then
        (case read_file destination_file w of
           Inl e \<Rightarrow> Inl e
         | Inr (destination_content, w1) \<Rightarrow>
             Inr (alloc_list (parse lib destination_content) h, w1))
      else Inr (([], h), w))"

text \<open>
  Lines 90 to 95, run when \<open>moved_entries\<close> is not empty: the separator
  \<open>ast.Junk(content="\n\n")\<close> is appended to a destination body that is not empty
  and does not end with junk, then the moved entries are appended.
\<close>

definition append_moved :: "ref list \<Rightarrow> ref list \<times> heap \<Rightarrow> ref list \<times> heap" where
  "append_moved moved dest =
     (let (body, h) = dest;
          (body1, h1) =
            (if body \<noteq> [] then
               (let last_entry = last body in
                if \<not> is_Junk (cells h last_entry) then
                  (let (separator, h') = alloc (Junk [newline, newline]) h
                   in (body @ [separator], h'))
                else (body, h))
             else (body, h))
      in (body1 @ moved, h1))"

text \<open>The body of the loop over the language directories (lines 46 to 109).\<close>

definition process_dir ::
  "fluent \<Rightarrow> string set \<Rightarrow> (string \<times> string) option \<Rightarrow> string \<Rightarrow> string \<Rightarrow> path \<Rightarrow> world
     \<Rightarrow> error + world" where
  "process_dir lib keys_to_move renaming source_filename destination_filename lang_dir w =
     (let source_file = path_join lang_dir source_filename;
          destination_file = path_join lang_dir destination_filename
      in if \<not> path_exists w source_file then
           Inr (print_line (''Skipping '' @ lang_dir @ '': '' @ quoted source_filename
                              @ '' not found.'') w)
         else
           (let w1 = print_line (newline # ''Processing '' @ quoted source_file @ ''...'') w
            in case read_file source_file w1 of
                 Inl e \<Rightarrow> Inl e
               | Inr (source_content, w2) \<Rightarrow>
                   (let (source_body, h) = alloc_list (parse lib source_content) new_heap;
                        st = entry_loop keys_to_move renaming source_body (loop_start h);
                        w3 = w2\<lparr>stdout := stdout w2 @ printed st\<rparr>
                    in case load_destination lib destination_file (objects st) w3 of
                         Inl e \<Rightarrow> Inl e
                       | Inr (destination_resource, w4) \<Rightarrow>
                           (let (h5, w5) =
                                  (if moved_entries st \<noteq> [] then
                                     (let (body, h') =
                                            append_moved (moved_entries st) destination_resource;
                                          serialized_destination =
                                            serialize lib (map (cells h') body)
                                      in (h', print_line
                                            (''Successfully moved ''
                                               @ string_of_nat (length (moved_entries st))
                                               @ '' keys to '' @ quoted destination_file @ ''.'')
                                            (write_file destination_file serialized_destination w4)))
                                   else
                                     (snd destination_resource,
                                      print_line ''No keys found to move in this file.'' w4));
                                serialized_remaining =
                                  serialize lib (map (cells h5) (remaining_entries st))
                            in Inr (print_line
                                      ''Updated the source file. Operation complete for this language.''
                                      (write_file source_file serialized_remaining w5))))))"

text \<open>The loop over the language directories (line 45); an exception ends it.\<close>

fun process_dirs ::
  "fluent \<Rightarrow> string set \<Rightarrow> (string \<times> string) option \<Rightarrow> string \<Rightarrow> string \<Rightarrow> path list \<Rightarrow> world
     \<Rightarrow> error + world" where
  "process_dirs lib keys_to_move renaming source_filename destination_filename [] w = Inr w"
| "process_dirs lib keys_to_move renaming source_filename destination_filename
     (lang_dir # language_dirs) w =
     (case process_dir lib keys_to_move renaming source_filename destination_filename lang_dir w of
        Inl e \<Rightarrow> Inl e
      | Inr w' \<Rightarrow>
          process_dirs lib keys_to_move renaming source_filename destination_filename
            language_dirs w')"

text \<open>The function \<open>move_and_rename_fluent_strings\<close> (lines 6 to 109).\<close>

definition move_and_rename_fluent_strings ::
  "fluent \<Rightarrow> path \<Rightarrow> path \<Rightarrow> string \<Rightarrow> string \<Rightarrow> bool \<Rightarrow> world \<Rightarrow> error + world" where
  "move_and_rename_fluent_strings lib base_dir strings_to_move_file source_filename
     destination_filename rename_keys w =
     (if \<not> path_exists w strings_to_move_file then
        Inr (print_line (''Error: The strings list file '' @ quoted strings_to_move_file
                           @ '' does not exist.'') w)
      else
        (let renaming = rename_prefixes rename_keys source_filename destination_filename
         in case read_file strings_to_move_file w of
              Inl e \<Rightarrow> Inl e
            | Inr (text, w1) \<Rightarrow>
                (let keys_to_move = set (keys_of_text text)
                 in if keys_to_move = {} then Inr (print_line ''No keys to move. Exiting.'' w1)
                    else
                      (let (language_dirs, w2) = glob (path_join base_dir ''*/'') w1
                       in if language_dirs = [] then
                            Inr (print_line (''No language directories found in ''
                                               @ quoted base_dir @ ''. Exiting.'') w2)
                          else process_dirs lib keys_to_move renaming source_filename
                                 destination_filename language_dirs w2))))"


section \<open>Notions used to state the properties\<close>

text \<open>
  An entry is selected by a key set when it is a message or a term whose identifier's
  name is in the set.
\<close>

definition is_selected :: "string set \<Rightarrow> entry \<Rightarrow> bool" where
  "is_selected keys e = (case id_name e of Some k \<Rightarrow> k \<in> keys | None \<Rightarrow> False)"

text \<open>
  An entry after the renaming: with renaming enabled, the name of a message or term
  has the first occurrence of the source prefix replaced by the destination prefix.
\<close>

definition rename_entry :: "(string \<times> string) option \<Rightarrow> entry \<Rightarrow> entry" where
  "rename_entry renaming e =
     (case renaming of
        None \<Rightarrow> e
      | Some (source_prefix, destination_prefix) \<Rightarrow>
          (case id_name e of
             None \<Rightarrow> e
           | Some k \<Rightarrow> set_id_name (replace_first source_prefix destination_prefix k) e))"

text \<open>The line the loop prints for a moved entry, if any.\<close>

definition rename_report :: "(string \<times> string) option \<Rightarrow> entry \<Rightarrow> string list" where
  "rename_report renaming e =
     (case renaming of
        None \<Rightarrow> []
      | Some (source_prefix, destination_prefix) \<Rightarrow>
          (case id_name e of
             None \<Rightarrow> []
           | Some k \<Rightarrow>
               [''Renamed '' @ quoted k @ '' to ''
                  @ quoted (replace_first source_prefix destination_prefix k)]))"


text \<open>
  What one language directory holds, entry by entry: the entries of the source text
  that are moved (after the renaming), those that remain, the entries the destination
  file has before the run, and the separator lines 90 to 93 put before the moved
  entries.
\<close>

definition moved_of ::
  "fluent \<Rightarrow> string set \<Rightarrow> (string \<times> string) option \<Rightarrow> string \<Rightarrow> entry list" where
  "moved_of lib keys renaming source_content =
     map (rename_entry renaming) (filter (is_selected keys) (parse lib source_content))"

definition remaining_of :: "fluent \<Rightarrow> string set \<Rightarrow> string \<Rightarrow> entry list" where
  "remaining_of lib keys source_content =
     filter (\<lambda>e. \<not> is_selected keys e) (parse lib source_content)"

definition destination_of :: "fluent \<Rightarrow> world \<Rightarrow> path \<Rightarrow> entry list" where
  "destination_of lib w destination_file =
     (case files w destination_file of None \<Rightarrow> [] | Some text \<Rightarrow> parse lib text)"

definition separator_for :: "entry list \<Rightarrow> entry list" where
  "separator_for existing =
     (if existing \<noteq> [] \<and> \<not> is_Junk (last existing) then [Junk [newline, newline]] else [])"

definition rename_reports ::
  "fluent \<Rightarrow> string set \<Rightarrow> (string \<times> string) option \<Rightarrow> string \<Rightarrow> string list" where
  "rename_reports lib keys renaming source_content =
     concat (map (rename_report renaming)
               (filter (is_selected keys) (parse lib source_content)))"

text \<open>What the script reads in a language directory it processes.\<close>

definition reads_of :: "world \<Rightarrow> path \<Rightarrow> path \<Rightarrow> io_event list" where
  "reads_of w source_file destination_file =
     Read source_file # (if files w destination_file = None then [] else [Read destination_file])"


section \<open>Sample inputs\<close>

text \<open>
  A small stand-in for the library, and a directory tree, on which the theorems below
  are instantiated. The stand-in parser knows three texts; the stand-in serializer
  writes one entry after the other.
\<close>

fun sample_show :: "entry \<Rightarrow> string" where
  "sample_show (Message k v) = k @ ''='' @ v @ '';''"
| "sample_show (Term k v) = ''-'' @ k @ ''='' @ v @ '';''"
| "sample_show (Comment t) = ''#'' @ t @ '';''"
| "sample_show (GroupComment t) = ''##'' @ t @ '';''"
| "sample_show (ResourceComment t) = ''###'' @ t @ '';''"
| "sample_show (Junk t) = t"

definition sample_parse :: "string \<Rightarrow> entry list" where
  "sample_parse text =
     (if text = ''a=1;b=2;c=3;'' then [Message ''a'' ''1'', Message ''b'' ''2'', Message ''c'' ''3'']
      else if text = ''a=1;c=3;'' then [Message ''a'' ''1'', Message ''c'' ''3'']
      else if text = ''x=0;'' then [Message ''x'' ''0'']
      else if text = ''common-button-label=OK;?''
        then [Message ''common-button-label'' ''OK'', Junk ''?'']
      else [])"

definition sample_lib :: fluent where
  "sample_lib = \<lparr>parse = sample_parse, serialize = (\<lambda>es. concat (map sample_show es))\<rparr>"

text \<open>The same stand-in with the default serializer of the library.\<close>

definition sample_serialize_entry :: "bool \<Rightarrow> entry \<Rightarrow> string" where
  "sample_serialize_entry state e = sample_show e"

definition sample_default_lib :: fluent where
  "sample_default_lib = default_fluent sample_parse sample_serialize_entry"

definition sample_world :: world where
  "sample_world =
     \<lparr>files = [''l10n/en/common.ftl'' \<mapsto> ''a=1;b=2;c=3;'',
                ''l10n/en/new_component.ftl'' \<mapsto> ''x=0;'',
                ''l10n/fr/common.ftl'' \<mapsto> ''a=1;c=3;'',
                ''l10n/pl/common.ftl'' \<mapsto> ''common-button-label=OK;?'',
                ''keys.txt'' \<mapsto> ''b'' @ [newline] @ '' common-button-label '' @ [newline]],
      glob_result = (\<lambda>pattern. if pattern = ''l10n/*/''
                                then [''l10n/de/'', ''l10n/en/'', ''l10n/fr/''] else []),
      stdout = [],
      io_log = []\<rparr>"


section \<open>Facts about allocation and the entry loop\<close>

lemma upt_add_Suc: "[n ..< Suc (n + k)] = n # [Suc n ..< Suc (n + k)]"
  by (rule upt_conv_Cons) simp

lemma alloc_list_fst: "fst (alloc_list es h) = [next_ref h ..< next_ref h + length es]"
proof (induction es arbitrary: h)
  case Nil
  show ?case by simp
next
  case (Cons e es)
  show ?case
    using Cons.IH [of "snd (alloc e h)"]
    by (simp add: split_def Let_def alloc_def upt_add_Suc del: upt_Suc)
qed

lemma alloc_list_next: "next_ref (snd (alloc_list es h)) = next_ref h + length es"
  by (induction es arbitrary: h) (simp_all add: alloc_def split_def Let_def)

lemma alloc_list_old: "r < next_ref h \<Longrightarrow> cells (snd (alloc_list es h)) r = cells h r"
  by (induction es arbitrary: h) (simp_all add: alloc_def split_def Let_def)

lemma alloc_list_new:
  "map (cells (snd (alloc_list es h))) [next_ref h ..< next_ref h + length es] = es"
proof (induction es arbitrary: h)
  case Nil
  show ?case by simp
next
  case (Cons e es)
  let ?h1 = "snd (alloc e h)"
  have n: "next_ref ?h1 = Suc (next_ref h)" by (simp add: alloc_def)
  have "cells (snd (alloc_list es ?h1)) (next_ref h) = cells ?h1 (next_ref h)"
    by (rule alloc_list_old) (simp add: n)
  then have c: "cells (snd (alloc_list es ?h1)) (next_ref h) = e"
    by (simp add: alloc_def)
  show ?case using Cons.IH [of ?h1] c
    by (simp add: split_def Let_def n upt_add_Suc del: upt_Suc)
qed


lemma loop_body_moved:
  "moved_entries (loop_body keys rn r st) =
     moved_entries st @ (if is_selected keys (cells (objects st) r) then [r] else [])"
  by (simp add: loop_body_def is_selected_def Let_def split: option.splits prod.splits)

lemma loop_body_remaining:
  "remaining_entries (loop_body keys rn r st) =
     remaining_entries st @ (if is_selected keys (cells (objects st) r) then [] else [r])"
  by (simp add: loop_body_def is_selected_def Let_def split: option.splits prod.splits)

lemma loop_body_printed:
  "printed (loop_body keys rn r st) =
     printed st @ (if is_selected keys (cells (objects st) r)
                   then rename_report rn (cells (objects st) r) else [])"
  by (simp add: loop_body_def is_selected_def rename_report_def Let_def
           split: option.splits prod.splits)

lemma loop_body_cells:
  "cells (objects (loop_body keys rn r st)) q =
     (if q = r \<and> is_selected keys (cells (objects st) r)
      then rename_entry rn (cells (objects st) r) else cells (objects st) q)"
  by (simp add: loop_body_def is_selected_def rename_entry_def Let_def
           split: option.splits prod.splits)

lemma loop_body_next: "next_ref (objects (loop_body keys rn r st)) = next_ref (objects st)"
  by (simp add: loop_body_def Let_def split: option.splits prod.splits)

lemma entry_loop_next:
  "next_ref (objects (entry_loop keys rn body st)) = next_ref (objects st)"
  by (induction body arbitrary: st) (simp_all add: loop_body_next)

lemma entry_loop_mset:
  "mset (moved_entries (entry_loop keys rn body st))
     + mset (remaining_entries (entry_loop keys rn body st))
   = mset (moved_entries st) + mset (remaining_entries st) + mset body"
  by (induction body arbitrary: st) (simp_all add: loop_body_moved loop_body_remaining)

lemma entry_loop_moved:
  "distinct body \<Longrightarrow>
   moved_entries (entry_loop keys rn body st) =
     moved_entries st @ filter (\<lambda>r. is_selected keys (cells (objects st) r)) body"
proof (induction body arbitrary: st)
  case Nil
  show ?case by simp
next
  case (Cons x body)
  have "filter (\<lambda>r. is_selected keys (cells (objects (loop_body keys rn x st)) r)) body
        = filter (\<lambda>r. is_selected keys (cells (objects st) r)) body"
    using Cons.prems by (intro filter_cong) (auto simp: loop_body_cells)
  then show ?case using Cons by (simp add: loop_body_moved)
qed

lemma entry_loop_remaining:
  "distinct body \<Longrightarrow>
   remaining_entries (entry_loop keys rn body st) =
     remaining_entries st @ filter (\<lambda>r. \<not> is_selected keys (cells (objects st) r)) body"
proof (induction body arbitrary: st)
  case Nil
  show ?case by simp
next
  case (Cons x body)
  have "filter (\<lambda>r. \<not> is_selected keys (cells (objects (loop_body keys rn x st)) r)) body
        = filter (\<lambda>r. \<not> is_selected keys (cells (objects st) r)) body"
    using Cons.prems by (intro filter_cong) (auto simp: loop_body_cells)
  then show ?case using Cons by (simp add: loop_body_remaining)
qed

lemma entry_loop_printed:
  "distinct body \<Longrightarrow>
   printed (entry_loop keys rn body st) =
     printed st @ concat (map (\<lambda>r. rename_report rn (cells (objects st) r))
                            (filter (\<lambda>r. is_selected keys (cells (objects st) r)) body))"
proof (induction body arbitrary: st)
  case Nil
  show ?case by simp
next
  case (Cons x body)
  let ?st = "loop_body keys rn x st"
  have eq: "\<And>r. r \<in> set body \<Longrightarrow> cells (objects ?st) r = cells (objects st) r"
    using Cons.prems by (auto simp: loop_body_cells)
  have f: "filter (\<lambda>r. is_selected keys (cells (objects ?st) r)) body
        = filter (\<lambda>r. is_selected keys (cells (objects st) r)) body"
    by (intro filter_cong) (auto simp: eq)
  have m: "map (\<lambda>r. rename_report rn (cells (objects ?st) r))
          (filter (\<lambda>r. is_selected keys (cells (objects st) r)) body)
      = map (\<lambda>r. rename_report rn (cells (objects st) r))
          (filter (\<lambda>r. is_selected keys (cells (objects st) r)) body)"
    by (intro map_cong) (auto simp: eq)
  show ?case using Cons.prems by (simp add: loop_body_printed Cons.IH f m)
qed

lemma entry_loop_cells:
  "distinct body \<Longrightarrow>
   cells (objects (entry_loop keys rn body st)) q =
     (if q \<in> set body \<and> is_selected keys (cells (objects st) q)
      then rename_entry rn (cells (objects st) q) else cells (objects st) q)"
proof (induction body arbitrary: st)
  case Nil
  show ?case by simp
next
  case (Cons x body)
  then show ?case by (auto simp: loop_body_cells)
qed


lemma alloc_list_keeps:
  "\<forall>r \<in> set rs. r < next_ref h \<Longrightarrow> map (cells (snd (alloc_list es h))) rs = map (cells h) rs"
  by (simp add: alloc_list_old)

lemma parsed_values:
  "map (cells (snd (alloc_list es new_heap))) [0 ..< length es] = es"
  using alloc_list_new [of es new_heap] by (simp add: new_heap_def)

lemma filter_upt_values:
  assumes "map f [0 ..< n] = es"
  shows "map f (filter (\<lambda>r. P (f r)) [0 ..< n]) = filter P es"
proof -
  have "filter P (map f [0 ..< n]) = map f (filter (P \<circ> f) [0 ..< n])"
    by (rule filter_map)
  then show ?thesis using assms by (simp add: comp_def)
qed

lemma loop_on_parsed:
  fixes es :: "entry list" and keys rn
  defines "h0 \<equiv> snd (alloc_list es new_heap)"
  defines "st \<equiv> entry_loop keys rn (fst (alloc_list es new_heap)) (loop_start h0)"
  shows loop_moved_refs:
      "moved_entries st = filter (\<lambda>r. is_selected keys (cells h0 r)) [0 ..< length es]"
    and loop_remaining_refs:
      "remaining_entries st = filter (\<lambda>r. \<not> is_selected keys (cells h0 r)) [0 ..< length es]"
    and loop_moved_values:
      "map (cells (objects st)) (moved_entries st)
         = map (rename_entry rn) (filter (is_selected keys) es)"
    and loop_remaining_values:
      "map (cells (objects st)) (remaining_entries st)
         = filter (\<lambda>e. \<not> is_selected keys e) es"
    and loop_printed_values:
      "printed st = concat (map (rename_report rn) (filter (is_selected keys) es))"
    and loop_next: "next_ref (objects st) = length es"
proof -
  have body: "fst (alloc_list es new_heap) = [0 ..< length es]"
    by (simp add: alloc_list_fst new_heap_def)
  have vals: "map (cells h0) [0 ..< length es] = es"
    unfolding h0_def by (rule parsed_values)
  have st: "st = entry_loop keys rn [0 ..< length es] (loop_start h0)"
    by (simp add: st_def body)
  show m: "moved_entries st = filter (\<lambda>r. is_selected keys (cells h0 r)) [0 ..< length es]"
    by (simp add: st entry_loop_moved loop_start_def)
  show r: "remaining_entries st
             = filter (\<lambda>r. \<not> is_selected keys (cells h0 r)) [0 ..< length es]"
    by (simp add: st entry_loop_remaining loop_start_def)
  have c: "\<And>q. cells (objects st) q =
             (if q < length es \<and> is_selected keys (cells h0 q)
              then rename_entry rn (cells h0 q) else cells h0 q)"
    by (simp add: st entry_loop_cells loop_start_def)
  have "map (cells (objects st)) (moved_entries st)
          = map (\<lambda>r. rename_entry rn (cells h0 r))
              (filter (\<lambda>r. is_selected keys (cells h0 r)) [0 ..< length es])"
    unfolding m by (rule map_cong) (auto simp: c)
  also have "\<dots> = map (rename_entry rn)
                     (map (cells h0) (filter (\<lambda>r. is_selected keys (cells h0 r)) [0 ..< length es]))"
    by simp
  also have "\<dots> = map (rename_entry rn) (filter (is_selected keys) es)"
    by (simp only: filter_upt_values [OF vals])
  finally show "map (cells (objects st)) (moved_entries st)
                  = map (rename_entry rn) (filter (is_selected keys) es)" .
  have "map (cells (objects st)) (remaining_entries st)
          = map (cells h0) (filter (\<lambda>r. \<not> is_selected keys (cells h0 r)) [0 ..< length es])"
    unfolding r by (rule map_cong) (auto simp: c)
  also have "\<dots> = filter (\<lambda>e. \<not> is_selected keys e) es"
    by (rule filter_upt_values [OF vals])
  finally show "map (cells (objects st)) (remaining_entries st)
                  = filter (\<lambda>e. \<not> is_selected keys e) es" .
  have "printed st = concat (map (\<lambda>r. rename_report rn (cells h0 r))
                               (filter (\<lambda>r. is_selected keys (cells h0 r)) [0 ..< length es]))"
    by (simp add: st entry_loop_printed loop_start_def)
  also have "\<dots> = concat (map (rename_report rn)
                     (map (cells h0) (filter (\<lambda>r. is_selected keys (cells h0 r)) [0 ..< length es])))"
    by (simp add: comp_def)
  also have "\<dots> = concat (map (rename_report rn) (filter (is_selected keys) es))"
    by (simp only: filter_upt_values [OF vals])
  finally show "printed st = concat (map (rename_report rn) (filter (is_selected keys) es))" .
  show "next_ref (objects st) = length es"
    by (simp add: st entry_loop_next loop_start_def h0_def alloc_list_next new_heap_def)
qed


lemma load_destination_eq:
  "load_destination lib dst h w =
     Inr (alloc_list (destination_of lib w dst) h,
          w\<lparr>io_log := io_log w @ (if files w dst = None then [] else [Read dst])\<rparr>)"
  by (cases "files w dst")
     (simp_all add: load_destination_def path_exists_def read_file_def destination_of_def)

lemma append_moved_values:
  assumes mv: "\<forall>r \<in> set moved. r < next_ref h"
  shows "map (cells (snd (append_moved moved (alloc_list D h))))
             (fst (append_moved moved (alloc_list D h)))
           = D @ separator_for D @ map (cells h) moved"
proof -
  let ?h1 = "snd (alloc_list D h)"
  let ?body = "[next_ref h ..< next_ref h + length D]"
  have al: "fst (alloc_list D h) = ?body" by (rule alloc_list_fst)
  have vals: "map (cells ?h1) ?body = D" by (rule alloc_list_new)
  have mv1: "map (cells ?h1) moved = map (cells h) moved"
    using mv by (rule alloc_list_keeps)
  have n1: "next_ref ?h1 = next_ref h + length D" by (rule alloc_list_next)
  show ?thesis
  proof (cases "D = []")
    case True
    then show ?thesis by (simp add: append_moved_def separator_for_def)
  next
    case False
    then have ne: "?body \<noteq> []" by simp
    have "last D = last (map (cells ?h1) ?body)" by (simp only: vals)
    also have "\<dots> = cells ?h1 (last ?body)" using ne by (rule last_map)
    finally have lastD: "cells ?h1 (last ?body) = last D" by simp
    show ?thesis
    proof (cases "is_Junk (last D)")
      case True
      then show ?thesis using False ne lastD vals mv1
        by (simp add: al append_moved_def separator_for_def Let_def split_def del: upt_Suc)
    next
      case nj: False
      let ?h2 = "snd (alloc (Junk [newline, newline]) ?h1)"
      have b2: "map (cells ?h2) ?body = map (cells ?h1) ?body"
        by (rule map_cong) (auto simp: alloc_def n1)
      have m2: "map (cells ?h2) moved = map (cells ?h1) moved"
        using mv by (intro map_cong) (auto simp: alloc_def n1)
      have s2: "cells ?h2 (fst (alloc (Junk [newline, newline]) ?h1)) = Junk [newline, newline]"
        by (simp add: alloc_def)
      have "append_moved moved (alloc_list D h) =
              (?body @ [fst (alloc (Junk [newline, newline]) ?h1)] @ moved, ?h2)"
        using False ne lastD nj
        by (simp add: al append_moved_def Let_def split_def del: upt_Suc)
      then show ?thesis using False nj b2 m2 s2 vals mv1
        by (simp add: separator_for_def del: upt_Suc)
    qed
  qed
qed

lemma append_moved_keeps:
  assumes "\<forall>r \<in> set rs. r < next_ref h"
  shows "map (cells (snd (append_moved moved (alloc_list D h)))) rs = map (cells h) rs"
proof -
  let ?h1 = "snd (alloc_list D h)"
  have n1: "next_ref ?h1 = next_ref h + length D" by (rule alloc_list_next)
  have k1: "map (cells ?h1) rs = map (cells h) rs" using assms by (rule alloc_list_keeps)
  have k2: "map (cells (snd (alloc (Junk [newline, newline]) ?h1))) rs = map (cells ?h1) rs"
    using assms by (intro map_cong) (auto simp: alloc_def n1)
  have "snd (append_moved moved (alloc_list D h)) = ?h1
        \<or> snd (append_moved moved (alloc_list D h)) = snd (alloc (Junk [newline, newline]) ?h1)"
    by (simp add: append_moved_def Let_def split_def)
  then show ?thesis using k1 k2 by auto
qed


lemma loop_refs_bound:
  fixes es :: "entry list" and keys rn
  defines "st \<equiv> entry_loop keys rn (fst (alloc_list es new_heap))
                   (loop_start (snd (alloc_list es new_heap)))"
  shows "\<forall>r \<in> set (moved_entries st). r < next_ref (objects st)"
    and "\<forall>r \<in> set (remaining_entries st). r < next_ref (objects st)"
  unfolding st_def by (simp_all add: loop_moved_refs loop_remaining_refs loop_next)

lemma loop_moved_length:
  "length (moved_entries (entry_loop keys rn (fst (alloc_list es new_heap))
                            (loop_start (snd (alloc_list es new_heap)))))
     = length (filter (is_selected keys) es)"
  using arg_cong [OF loop_moved_values [of keys rn es], of length] by simp

lemma process_dir_none:
  assumes src: "files w (path_join d sf) = Some c"
    and none: "moved_of lib keys rn c = []"
  shows "process_dir lib keys rn sf df d w =
     Inr (w\<lparr>files := (files w)(path_join d sf \<mapsto> serialize lib (remaining_of lib keys c)),
            stdout := stdout w @
              [newline # ''Processing '' @ quoted (path_join d sf) @ ''...'',
               ''No keys found to move in this file.'',
               ''Updated the source file. Operation complete for this language.''],
            io_log := io_log w @ reads_of w (path_join d sf) (path_join d df) @
              [Write (path_join d sf) (serialize lib (remaining_of lib keys c))]\<rparr>)"
proof -
  let ?es = "parse lib c"
  let ?st = "entry_loop keys rn (fst (alloc_list ?es new_heap))
               (loop_start (snd (alloc_list ?es new_heap)))"
  let ?D = "destination_of lib (print_line (newline # ''Processing '' @ quoted (path_join d sf) @ ''...'') w) (path_join d df)"
  have sel: "filter (is_selected keys) ?es = []"
    using none by (simp add: moved_of_def)
  have mv: "moved_entries ?st = []"
    using loop_moved_length [of keys rn ?es] sel by simp
  have pr: "printed ?st = []"
    by (simp add: loop_printed_values sel)
  have rem: "\<And>D. map (cells (snd (alloc_list D (objects ?st)))) (remaining_entries ?st)
               = remaining_of lib keys c"
    using alloc_list_keeps [OF loop_refs_bound(2) [of keys rn ?es]]
    by (simp add: loop_remaining_values remaining_of_def)
  show ?thesis
    using src
    by (simp add: process_dir_def Let_def split_def path_exists_def read_file_def
          load_destination_eq mv pr rem print_line_def write_file_def reads_of_def
          destination_of_def)
qed


lemma process_dir_some:
  assumes src: "files w (path_join d sf) = Some c"
    and some: "moved_of lib keys rn c \<noteq> []"
  shows "process_dir lib keys rn sf df d w =
     Inr (w\<lparr>files := (files w)
              (path_join d df \<mapsto>
                 serialize lib (destination_of lib w (path_join d df)
                                  @ separator_for (destination_of lib w (path_join d df))
                                  @ moved_of lib keys rn c),
               path_join d sf \<mapsto> serialize lib (remaining_of lib keys c)),
            stdout := stdout w @
              [newline # ''Processing '' @ quoted (path_join d sf) @ ''...'']
              @ rename_reports lib keys rn c @
              [''Successfully moved '' @ string_of_nat (length (moved_of lib keys rn c))
                 @ '' keys to '' @ quoted (path_join d df) @ ''.'',
               ''Updated the source file. Operation complete for this language.''],
            io_log := io_log w @ reads_of w (path_join d sf) (path_join d df) @
              [Write (path_join d df)
                 (serialize lib (destination_of lib w (path_join d df)
                                  @ separator_for (destination_of lib w (path_join d df))
                                  @ moved_of lib keys rn c)),
               Write (path_join d sf) (serialize lib (remaining_of lib keys c))]\<rparr>)"
proof -
  let ?es = "parse lib c"
  let ?st = "entry_loop keys rn (fst (alloc_list ?es new_heap))
               (loop_start (snd (alloc_list ?es new_heap)))"
  have len: "length (moved_entries ?st) = length (moved_of lib keys rn c)"
    by (simp add: loop_moved_length moved_of_def)
  have mv: "moved_entries ?st \<noteq> []"
    using len some by auto
  have pr: "printed ?st = rename_reports lib keys rn c"
    by (simp add: loop_printed_values rename_reports_def)
  have rem: "\<And>D. map (cells (snd (append_moved (moved_entries ?st) (alloc_list D (objects ?st)))))
                   (remaining_entries ?st)
               = remaining_of lib keys c"
    using append_moved_keeps [OF loop_refs_bound(2) [of keys rn ?es]]
    by (simp add: loop_remaining_values remaining_of_def)
  have dst: "\<And>D. map (cells (snd (append_moved (moved_entries ?st) (alloc_list D (objects ?st)))))
                   (fst (append_moved (moved_entries ?st) (alloc_list D (objects ?st))))
               = D @ separator_for D @ moved_of lib keys rn c"
    using append_moved_values [OF loop_refs_bound(1) [of keys rn ?es]]
    by (simp add: loop_moved_values moved_of_def)
  show ?thesis
    using src
    by (simp add: process_dir_def Let_def split_def path_exists_def read_file_def
          load_destination_eq mv pr rem dst len print_line_def write_file_def reads_of_def
          destination_of_def)
qed

section \<open>Facts about replacing the first occurrence\<close>

lemma replace_first_at:
  "i \<le> length s \<Longrightarrow> prefix old (drop i s) \<Longrightarrow> (\<forall>j<i. \<not> prefix old (drop j s)) \<Longrightarrow>
   replace_first old new s = take i s @ new @ drop (i + length old) s"
proof (induction s arbitrary: i)
  case Nil
  then show ?case by simp
next
  case (Cons c cs)
  show ?case
  proof (cases i)
    case 0
    with Cons.prems show ?thesis by simp
  next
    case (Suc k)
    have np: "\<not> prefix old (c # cs)"
      using Cons.prems(3) Suc by (metis drop0 zero_less_Suc)
    have k1: "k \<le> length cs" using Cons.prems(1) Suc by simp
    have k2: "prefix old (drop k cs)" using Cons.prems(2) Suc by simp
    have k3: "\<forall>j<k. \<not> prefix old (drop j cs)"
    proof (intro allI impI)
      fix j assume "j < k"
      then have "Suc j < i" using Suc by simp
      then have "\<not> prefix old (drop (Suc j) (c # cs))" using Cons.prems(3) by blast
      then show "\<not> prefix old (drop j cs)" by simp
    qed
    show ?thesis using Cons.IH [OF k1 k2 k3] np Suc by simp
  qed
qed

lemma replace_first_absent:
  "(\<forall>j\<le>length s. \<not> prefix old (drop j s)) \<Longrightarrow> replace_first old new s = s"
proof (induction s)
  case Nil
  then show ?case by simp
next
  case (Cons c cs)
  have np: "\<not> prefix old (c # cs)"
    using Cons.prems by (metis drop0 le0)
  have "\<forall>j\<le>length cs. \<not> prefix old (drop j cs)"
  proof (intro allI impI)
    fix j assume "j \<le> length cs"
    then have "Suc j \<le> length (c # cs)" by simp
    then have "\<not> prefix old (drop (Suc j) (c # cs))" using Cons.prems by blast
    then show "\<not> prefix old (drop j cs)" by simp
  qed
  then show ?case using Cons.IH np by simp
qed

section \<open>The partition of the source entries\<close>

text \<open>
  Claim C1. The parser's entries are distinct objects. Whatever the parsed source
  resource and the key set, and with or without renaming, the entry loop puts each of
  them in exactly one of \<open>moved_entries\<close> and \<open>remaining_entries\<close>: the two lists
  together hold the references of the body, each once, and share none.
\<close>
theorem partition_complete_disjoint:
  "case alloc_list (parse lib source_content) new_heap of
     (body, h) \<Rightarrow>
       (let st = entry_loop keys renaming body (loop_start h)
        in map (cells h) body = parse lib source_content
           \<and> distinct body
           \<and> mset (moved_entries st) + mset (remaining_entries st) = mset body
           \<and> set (moved_entries st) \<inter> set (remaining_entries st) = {}
           \<and> distinct (moved_entries st) \<and> distinct (remaining_entries st))"
proof -
  let ?es = "parse lib source_content"
  let ?body = "fst (alloc_list ?es new_heap)"
  let ?h = "snd (alloc_list ?es new_heap)"
  let ?st = "entry_loop keys renaming ?body (loop_start ?h)"
  have body: "?body = [0 ..< length ?es]"
    by (simp add: alloc_list_fst new_heap_def)
  have "map (cells ?h) ?body = ?es"
    unfolding body by (rule parsed_values)
  moreover have "distinct ?body" by (simp add: body)
  moreover have "mset (moved_entries ?st) + mset (remaining_entries ?st) = mset ?body"
    using entry_loop_mset [of keys renaming ?body "loop_start ?h"]
    by (simp add: loop_start_def)
  moreover have "set (moved_entries ?st) \<inter> set (remaining_entries ?st) = {}"
    by (auto simp: loop_moved_refs loop_remaining_refs)
  moreover have "distinct (moved_entries ?st)" "distinct (remaining_entries ?st)"
    by (simp_all add: loop_moved_refs loop_remaining_refs)
  ultimately show ?thesis by (simp add: split_def Let_def)
qed

lemma is_selected_iff:
  "is_selected keys e \<longleftrightarrow> (\<exists>k v. (e = Message k v \<or> e = Term k v) \<and> k \<in> keys)"
  by (cases e) (auto simp: is_selected_def)

text \<open>
  Claim C2. For every entry of the parsed source resource: it is put in
  \<open>moved_entries\<close> exactly when it is a message or a term whose name (as parsed) is in
  the key set, and in \<open>remaining_entries\<close> exactly when it is not; junk always remains.
\<close>

theorem moved_iff_selected:
  "case alloc_list (parse lib source_content) new_heap of
     (body, h) \<Rightarrow>
       (let st = entry_loop keys renaming body (loop_start h)
        in \<forall>r \<in> set body.
             (r \<in> set (moved_entries st) \<longleftrightarrow>
                (\<exists>k v. (cells h r = Message k v \<or> cells h r = Term k v) \<and> k \<in> keys))
             \<and> (r \<in> set (remaining_entries st) \<longleftrightarrow>
                \<not> (\<exists>k v. (cells h r = Message k v \<or> cells h r = Term k v) \<and> k \<in> keys))
             \<and> (\<forall>t. cells h r = Junk t \<longrightarrow> r \<in> set (remaining_entries st)))"
proof -
  let ?es = "parse lib source_content"
  let ?body = "fst (alloc_list ?es new_heap)"
  let ?h = "snd (alloc_list ?es new_heap)"
  let ?st = "entry_loop keys renaming ?body (loop_start ?h)"
  have body: "?body = [0 ..< length ?es]"
    by (simp add: alloc_list_fst new_heap_def)
  have m: "\<And>r. r \<in> set ?body \<Longrightarrow>
             r \<in> set (moved_entries ?st) \<longleftrightarrow> is_selected keys (cells ?h r)"
    by (subst loop_moved_refs) (simp add: body)
  have rm: "\<And>r. r \<in> set ?body \<Longrightarrow>
             r \<in> set (remaining_entries ?st) \<longleftrightarrow> \<not> is_selected keys (cells ?h r)"
    by (subst loop_remaining_refs) (simp add: body)
  have j: "\<And>r t. cells ?h r = Junk t \<Longrightarrow> \<not> is_selected keys (cells ?h r)"
    by (simp add: is_selected_def)
  have "\<forall>r \<in> set ?body.
          (r \<in> set (moved_entries ?st) \<longleftrightarrow>
             (\<exists>k v. (cells ?h r = Message k v \<or> cells ?h r = Term k v) \<and> k \<in> keys))
          \<and> (r \<in> set (remaining_entries ?st) \<longleftrightarrow>
             \<not> (\<exists>k v. (cells ?h r = Message k v \<or> cells ?h r = Term k v) \<and> k \<in> keys))
          \<and> (\<forall>t. cells ?h r = Junk t \<longrightarrow> r \<in> set (remaining_entries ?st))"
    using m rm j by (simp add: is_selected_iff)
  then show ?thesis by (simp only: split_def Let_def)
qed

theorem moved_iff_selected_witness:
  "fst (alloc_list (parse sample_lib ''common-button-label=OK;?'') new_heap) = [0, 1]
   \<and> cells (snd (alloc_list (parse sample_lib ''common-button-label=OK;?'') new_heap)) 0
       = Message ''common-button-label'' ''OK''
   \<and> cells (snd (alloc_list (parse sample_lib ''common-button-label=OK;?'') new_heap)) 1
       = Junk ''?''
   \<and> 0 \<in> set (moved_entries
        (entry_loop {''common-button-label''} None
           (fst (alloc_list (parse sample_lib ''common-button-label=OK;?'') new_heap))
           (loop_start (snd (alloc_list (parse sample_lib ''common-button-label=OK;?'') new_heap)))))
   \<and> 1 \<in> set (remaining_entries
        (entry_loop {''common-button-label''} None
           (fst (alloc_list (parse sample_lib ''common-button-label=OK;?'') new_heap))
           (loop_start (snd (alloc_list (parse sample_lib ''common-button-label=OK;?'') new_heap)))))"
  using moved_iff_selected [where lib = sample_lib
      and source_content = "''common-button-label=OK;?''"
      and keys = "{''common-button-label''}" and renaming = None]
  by (simp add: sample_lib_def sample_parse_def new_heap_def alloc_def split_def Let_def)

section \<open>Renaming\<close>

lemma id_name_set_id_name: "id_name e = Some k \<Longrightarrow> id_name (set_id_name n e) = Some n"
  by (cases e) simp_all

lemma splitext_common: "fst (splitext ''common.ftl'') = ''common''"
  by (simp add: splitext_def rfind_def)

lemma splitext_new_component: "fst (splitext ''new_component.ftl'') = ''new_component''"
  by (simp add: splitext_def rfind_def)

text \<open>
  Claim C3. With renaming enabled the prefixes are the two file names without their
  extensions, and every moved entry keeps everything but its name, which becomes the
  old name with the first occurrence of the source prefix replaced by the destination
  prefix: when the prefix first occurs at index \<open>i\<close>, the name is cut there and the
  destination prefix put in its place; when it occurs nowhere, the name is unchanged.
  \<open>replace_first\<close> is total, so no error arises. For \<open>common.ftl\<close>, \<open>new_component.ftl\<close>
  and the key \<open>common-button-label\<close> the new name is \<open>new_component-button-label\<close>.
\<close>

theorem rename_first_occurrence:
  "rename_prefixes True source_filename destination_filename
     = Some (fst (splitext source_filename), fst (splitext destination_filename))
   \<and> (case alloc_list (parse lib source_content) new_heap of
        (body, h) \<Rightarrow>
          (let st = entry_loop keys
                      (rename_prefixes True source_filename destination_filename)
                      body (loop_start h)
           in \<forall>r \<in> set (moved_entries st).
                \<exists>old_id. id_name (cells h r) = Some old_id
                  \<and> cells (objects st) r =
                      set_id_name (replace_first (fst (splitext source_filename))
                                     (fst (splitext destination_filename)) old_id)
                        (cells h r)
                  \<and> id_name (cells (objects st) r) =
                      Some (replace_first (fst (splitext source_filename))
                              (fst (splitext destination_filename)) old_id)))
   \<and> (\<forall>old_id i. i \<le> length old_id \<and> prefix source_prefix (drop i old_id)
          \<and> (\<forall>j<i. \<not> prefix source_prefix (drop j old_id))
        \<longrightarrow> replace_first source_prefix destination_prefix old_id
              = take i old_id @ destination_prefix @ drop (i + length source_prefix) old_id)
   \<and> (\<forall>old_id. (\<forall>j\<le>length old_id. \<not> prefix source_prefix (drop j old_id))
        \<longrightarrow> replace_first source_prefix destination_prefix old_id = old_id)
   \<and> fst (splitext ''common.ftl'') = ''common''
   \<and> fst (splitext ''new_component.ftl'') = ''new_component''
   \<and> replace_first ''common'' ''new_component'' ''common-button-label''
       = ''new_component-button-label''"
proof -
  let ?rn = "rename_prefixes True source_filename destination_filename"
  let ?sp = "fst (splitext source_filename)"
  let ?dp = "fst (splitext destination_filename)"
  let ?es = "parse lib source_content"
  let ?body = "fst (alloc_list ?es new_heap)"
  let ?h = "snd (alloc_list ?es new_heap)"
  let ?st = "entry_loop keys ?rn ?body (loop_start ?h)"
  have rn: "?rn = Some (?sp, ?dp)" by (simp add: rename_prefixes_def)
  have body: "?body = [0 ..< length ?es]"
    by (simp add: alloc_list_fst new_heap_def)
  have loop: "\<forall>r \<in> set (moved_entries ?st).
          \<exists>old_id. id_name (cells ?h r) = Some old_id
            \<and> cells (objects ?st) r = set_id_name (replace_first ?sp ?dp old_id) (cells ?h r)
            \<and> id_name (cells (objects ?st) r) = Some (replace_first ?sp ?dp old_id)"
  proof
    fix r assume "r \<in> set (moved_entries ?st)"
    then have r: "r < length ?es" and sel: "is_selected keys (cells ?h r)"
      by (simp_all add: loop_moved_refs)
    from sel obtain k where k: "id_name (cells ?h r) = Some k"
      by (auto simp: is_selected_def split: option.splits)
    have "cells (objects ?st) r = rename_entry ?rn (cells ?h r)"
      using r sel by (simp add: body entry_loop_cells loop_start_def)
    then have c: "cells (objects ?st) r = set_id_name (replace_first ?sp ?dp k) (cells ?h r)"
      using k by (simp add: rn rename_entry_def)
    have "id_name (cells (objects ?st) r) = Some (replace_first ?sp ?dp k)"
      unfolding c using k by (rule id_name_set_id_name)
    with k c show "\<exists>old_id. id_name (cells ?h r) = Some old_id
            \<and> cells (objects ?st) r = set_id_name (replace_first ?sp ?dp old_id) (cells ?h r)
            \<and> id_name (cells (objects ?st) r) = Some (replace_first ?sp ?dp old_id)"
      by blast
  qed
  have loop': "case alloc_list ?es new_heap of
        (body, h) \<Rightarrow>
          (let st = entry_loop keys ?rn body (loop_start h)
           in \<forall>r \<in> set (moved_entries st).
                \<exists>old_id. id_name (cells h r) = Some old_id
                  \<and> cells (objects st) r = set_id_name (replace_first ?sp ?dp old_id) (cells h r)
                  \<and> id_name (cells (objects st) r) = Some (replace_first ?sp ?dp old_id))"
    using loop by (simp only: split_def Let_def)
  have at: "\<forall>old_id i. i \<le> length old_id \<and> prefix source_prefix (drop i old_id)
          \<and> (\<forall>j<i. \<not> prefix source_prefix (drop j old_id))
        \<longrightarrow> replace_first source_prefix destination_prefix old_id
              = take i old_id @ destination_prefix @ drop (i + length source_prefix) old_id"
    using replace_first_at by blast
  have absent: "\<forall>old_id. (\<forall>j\<le>length old_id. \<not> prefix source_prefix (drop j old_id))
        \<longrightarrow> replace_first source_prefix destination_prefix old_id = old_id"
    using replace_first_absent by blast
  have ex: "replace_first ''common'' ''new_component'' ''common-button-label''
       = ''new_component-button-label''"
    by simp
  show ?thesis
    using rn loop' at absent splitext_common splitext_new_component ex by blast
qed

theorem rename_first_occurrence_witness:
  "moved_entries
     (entry_loop {''common-button-label''} (rename_prefixes True ''common.ftl'' ''new_component.ftl'')
        (fst (alloc_list (parse sample_lib ''common-button-label=OK;?'') new_heap))
        (loop_start (snd (alloc_list (parse sample_lib ''common-button-label=OK;?'') new_heap))))
     = [0]
   \<and> cells (objects
       (entry_loop {''common-button-label''} (rename_prefixes True ''common.ftl'' ''new_component.ftl'')
          (fst (alloc_list (parse sample_lib ''common-button-label=OK;?'') new_heap))
          (loop_start (snd (alloc_list (parse sample_lib ''common-button-label=OK;?'') new_heap))))) 0
     = Message ''new_component-button-label'' ''OK''
   \<and> prefix ''common'' (drop 4 ''new-common-common'')
   \<and> replace_first ''common'' ''new_component'' ''new-common-common''
       = ''new-new_component-common''
   \<and> replace_first ''common'' ''new_component'' ''other-label'' = ''other-label''"
  using rename_first_occurrence [where lib = sample_lib
      and source_content = "''common-button-label=OK;?''"
      and keys = "{''common-button-label''}"
      and source_filename = "''common.ftl''" and destination_filename = "''new_component.ftl''"
      and source_prefix = "''common''" and destination_prefix = "''new_component''"]
  by (simp add: sample_lib_def sample_parse_def new_heap_def alloc_def split_def Let_def
        loop_start_def loop_body_def rename_prefixes_def splitext_def rfind_def)

section \<open>What a processed directory holds afterwards\<close>

text \<open>
  Claim C4. Lines 90 to 95 turn a destination resource with the entries \<open>existing\<close>
  into \<open>existing\<close>, then the separator \<open>Junk "\n\n"\<close> exactly when \<open>existing\<close> is not
  empty and does not end with junk, then the moved entries in their order. The script
  runs these lines, and writes the destination file, only when some entry is moved: the
  log of a processed directory has the write of that resource to the destination file
  when \<open>moved_of\<close> is not empty and no write to it otherwise.
\<close>

theorem separator_before_moved:
  "((\<forall>r \<in> set moved. r < next_ref h) \<longrightarrow>
      (case append_moved moved (alloc_list existing h) of
         (body, h') \<Rightarrow>
           map (cells h') body =
             existing
             @ (if existing \<noteq> [] \<and> \<not> is_Junk (last existing)
                then [Junk [newline, newline]] else [])
             @ map (cells h) moved))
   \<and> (files w (path_join lang_dir source_filename) = Some source_content \<longrightarrow>
      (\<exists>w'. process_dir lib keys renaming source_filename destination_filename lang_dir w
               = Inr w'
         \<and> io_log w' =
             io_log w
             @ reads_of w (path_join lang_dir source_filename)
                 (path_join lang_dir destination_filename)
             @ (if moved_of lib keys renaming source_content = [] then []
                else [Write (path_join lang_dir destination_filename)
                        (serialize lib
                           (destination_of lib w (path_join lang_dir destination_filename)
                            @ (if destination_of lib w (path_join lang_dir destination_filename) \<noteq> []
                                  \<and> \<not> is_Junk (last (destination_of lib w
                                                     (path_join lang_dir destination_filename)))
                               then [Junk [newline, newline]] else [])
                            @ moved_of lib keys renaming source_content))])
             @ [Write (path_join lang_dir source_filename)
                  (serialize lib (remaining_of lib keys source_content))]))"
proof (intro conjI impI)
  assume "\<forall>r \<in> set moved. r < next_ref h"
  then have "map (cells (snd (append_moved moved (alloc_list existing h))))
               (fst (append_moved moved (alloc_list existing h)))
             = existing @ separator_for existing @ map (cells h) moved"
    by (rule append_moved_values)
  then show "case append_moved moved (alloc_list existing h) of
         (body, h') \<Rightarrow>
           map (cells h') body =
             existing
             @ (if existing \<noteq> [] \<and> \<not> is_Junk (last existing)
                then [Junk [newline, newline]] else [])
             @ map (cells h) moved"
    by (simp only: split_def separator_for_def)
next
  assume src: "files w (path_join lang_dir source_filename) = Some source_content"
  show "\<exists>w'. process_dir lib keys renaming source_filename destination_filename lang_dir w
               = Inr w'
         \<and> io_log w' =
             io_log w
             @ reads_of w (path_join lang_dir source_filename)
                 (path_join lang_dir destination_filename)
             @ (if moved_of lib keys renaming source_content = [] then []
                else [Write (path_join lang_dir destination_filename)
                        (serialize lib
                           (destination_of lib w (path_join lang_dir destination_filename)
                            @ (if destination_of lib w (path_join lang_dir destination_filename) \<noteq> []
                                  \<and> \<not> is_Junk (last (destination_of lib w
                                                     (path_join lang_dir destination_filename)))
                               then [Junk [newline, newline]] else [])
                            @ moved_of lib keys renaming source_content))])
             @ [Write (path_join lang_dir source_filename)
                  (serialize lib (remaining_of lib keys source_content))]"
  proof (cases "moved_of lib keys renaming source_content = []")
    case True
    show ?thesis
      by (simp add: process_dir_none [OF src True] True)
  next
    case False
    show ?thesis
      by (simp add: process_dir_some [OF src False] False separator_for_def)
  qed
qed

theorem separator_before_moved_witness:
  "0 < next_ref (snd (alloc_list [Message ''b'' ''2''] new_heap))
   \<and> (case append_moved [0] (alloc_list [Message ''x'' ''0'']
                               (snd (alloc_list [Message ''b'' ''2''] new_heap))) of
        (body, h') \<Rightarrow>
          map (cells h') body
            = [Message ''x'' ''0'', Junk [newline, newline], Message ''b'' ''2''])
   \<and> files sample_world (path_join ''l10n/en/'' ''common.ftl'') = Some ''a=1;b=2;c=3;''
   \<and> (\<exists>w'. process_dir sample_lib {''b''} None ''common.ftl'' ''new_component.ftl''
              ''l10n/en/'' sample_world = Inr w'
         \<and> io_log w' =
             [Read ''l10n/en/common.ftl'', Read ''l10n/en/new_component.ftl'',
              Write ''l10n/en/new_component.ftl'' (''x=0;'' @ [newline, newline] @ ''b=2;''),
              Write ''l10n/en/common.ftl'' ''a=1;c=3;''])"
  using separator_before_moved [where moved = "[0]"
      and h = "snd (alloc_list [Message ''b'' ''2''] new_heap)"
      and existing = "[Message ''x'' ''0'']"
      and w = sample_world and lang_dir = "''l10n/en/''"
      and source_filename = "''common.ftl''" and destination_filename = "''new_component.ftl''"
      and source_content = "''a=1;b=2;c=3;''" and lib = sample_lib
      and keys = "{''b''}" and renaming = None]
  by (simp add: sample_lib_def sample_parse_def sample_world_def new_heap_def alloc_def
        path_join_def moved_of_def remaining_of_def destination_of_def reads_of_def
        is_selected_def rename_entry_def)

section \<open>Junk and the default serializer\<close>

lemma serialize_entries_skips_junk:
  "serialize_entries se False st es
     = serialize_entries se False st (filter (\<lambda>e. \<not> is_Junk e) es)"
  by (induction es arbitrary: st) simp_all

lemma FluentSerializer_skips_junk:
  "FluentSerializer se False es = FluentSerializer se False (filter (\<lambda>e. \<not> is_Junk e) es)"
  unfolding FluentSerializer_def by (rule serialize_entries_skips_junk)

lemma selected_not_junk: "is_selected keys e \<Longrightarrow> \<not> is_Junk e"
  by (cases e) (simp_all add: is_selected_def)

lemma renamed_not_junk: "\<not> is_Junk e \<Longrightarrow> \<not> is_Junk (rename_entry rn e)"
  by (cases e) (simp_all add: rename_entry_def split: option.splits prod.splits)

lemma moved_without_junk:
  "filter (\<lambda>e. \<not> is_Junk e) (map (rename_entry rn) (filter (is_selected keys) es))
     = map (rename_entry rn) (filter (is_selected keys) es)"
  using selected_not_junk renamed_not_junk by (fastforce simp: filter_id_conv)

lemma separator_is_junk: "filter (\<lambda>e. \<not> is_Junk e) (separator_for existing) = []"
  by (simp add: separator_for_def)

text \<open>
  Claim C5 says that the rewritten source file holds exactly the remaining entries, in
  their order, and that the destination keeps the entries it had. The entry loop does
  put junk into \<open>remaining_entries\<close> (line 77), and line 93 builds the separator as a
  \<open>Junk\<close> entry, but the serializer of line 18 passes over junk. With the library set up
  as the script does, whatever the parser and the way one entry is written: the source
  file is rewritten as the serialization of the remaining entries that are not junk, so a
  source whose remaining entries are one junk entry is written empty; and the
  destination file is written without the junk it held and without the separator.
\<close>

theorem default_serializer_omits_junk:
  "files w (path_join lang_dir source_filename) = Some source_content \<longrightarrow>
     (\<exists>w'. process_dir (default_fluent parser serialize_entry) keys renaming
              source_filename destination_filename lang_dir w = Inr w'
        \<and> files w' (path_join lang_dir source_filename) =
            Some (FluentSerializer serialize_entry False
                    (filter (\<lambda>e. \<not> is_Junk e)
                       (filter (\<lambda>e. \<not> is_selected keys e) (parser source_content))))
        \<and> (\<forall>t. filter (\<lambda>e. \<not> is_selected keys e) (parser source_content) = [Junk t]
              \<longrightarrow> files w' (path_join lang_dir source_filename) = Some [])
        \<and> (filter (is_selected keys) (parser source_content) \<noteq> []
             \<and> path_join lang_dir destination_filename \<noteq> path_join lang_dir source_filename
           \<longrightarrow> files w' (path_join lang_dir destination_filename) =
                 Some (FluentSerializer serialize_entry False
                         (filter (\<lambda>e. \<not> is_Junk e)
                            (destination_of (default_fluent parser serialize_entry) w
                               (path_join lang_dir destination_filename))
                          @ map (rename_entry renaming)
                              (filter (is_selected keys) (parser source_content))))))"
proof
  let ?lib = "default_fluent parser serialize_entry"
  let ?src = "path_join lang_dir source_filename"
  let ?dst = "path_join lang_dir destination_filename"
  let ?R = "filter (\<lambda>e. \<not> is_selected keys e) (parser source_content)"
  let ?M = "map (rename_entry renaming) (filter (is_selected keys) (parser source_content))"
  let ?D = "destination_of ?lib w ?dst"
  assume src: "files w ?src = Some source_content"
  have p: "parse ?lib = parser" by (simp add: default_fluent_def)
  have s: "\<And>es. serialize ?lib es
              = FluentSerializer serialize_entry False (filter (\<lambda>e. \<not> is_Junk e) es)"
    using FluentSerializer_skips_junk by (simp add: default_fluent_def)
  have rem: "remaining_of ?lib keys source_content = ?R"
    by (simp add: remaining_of_def p)
  have mov: "moved_of ?lib keys renaming source_content = ?M"
    by (simp add: moved_of_def p)
  have one: "\<And>t. ?R = [Junk t] \<Longrightarrow>
               FluentSerializer serialize_entry False (filter (\<lambda>e. \<not> is_Junk e) ?R) = []"
    by (simp add: FluentSerializer_def)
  have dest: "filter (\<lambda>e. \<not> is_Junk e) (?D @ separator_for ?D @ ?M)
                = filter (\<lambda>e. \<not> is_Junk e) ?D @ ?M"
    by (simp add: separator_is_junk moved_without_junk)
  have fsrc: "serialize ?lib (remaining_of ?lib keys source_content)
                = FluentSerializer serialize_entry False (filter (\<lambda>e. \<not> is_Junk e) ?R)"
    by (simp only: rem s)
  have fdst: "serialize ?lib (?D @ separator_for ?D @ moved_of ?lib keys renaming source_content)
                = FluentSerializer serialize_entry False (filter (\<lambda>e. \<not> is_Junk e) ?D @ ?M)"
    by (simp only: mov s dest)
  have run: "\<exists>w'. process_dir ?lib keys renaming source_filename destination_filename lang_dir w
              = Inr w'
        \<and> files w' ?src = Some (serialize ?lib (remaining_of ?lib keys source_content))
        \<and> (moved_of ?lib keys renaming source_content \<noteq> [] \<and> ?dst \<noteq> ?src
           \<longrightarrow> files w' ?dst =
                 Some (serialize ?lib
                         (?D @ separator_for ?D @ moved_of ?lib keys renaming source_content)))"
  proof (cases "moved_of ?lib keys renaming source_content = []")
    case True
    show ?thesis by (simp add: process_dir_none [OF src True] True)
  next
    case False
    show ?thesis by (simp add: process_dir_some [OF src False])
  qed
  then obtain w' where
    r: "process_dir ?lib keys renaming source_filename destination_filename lang_dir w = Inr w'"
    and f1: "files w' ?src = Some (serialize ?lib (remaining_of ?lib keys source_content))"
    and f2: "moved_of ?lib keys renaming source_content \<noteq> [] \<and> ?dst \<noteq> ?src
           \<longrightarrow> files w' ?dst =
                 Some (serialize ?lib
                         (?D @ separator_for ?D @ moved_of ?lib keys renaming source_content))"
    by blast
  have g1: "files w' ?src =
            Some (FluentSerializer serialize_entry False (filter (\<lambda>e. \<not> is_Junk e) ?R))"
    using f1 by (simp only: fsrc)
  have g2: "\<forall>t. ?R = [Junk t] \<longrightarrow> files w' ?src = Some []"
  proof (intro allI impI)
    fix t
    assume "?R = [Junk t]"
    then have h: "FluentSerializer serialize_entry False (filter (\<lambda>e. \<not> is_Junk e) ?R) = []"
      by (rule one)
    show "files w' ?src = Some []"
      using g1 unfolding h .
  qed
  have ne: "filter (is_selected keys) (parser source_content) \<noteq> []
              \<Longrightarrow> moved_of ?lib keys renaming source_content \<noteq> []"
    by (simp add: mov)
  have g3: "filter (is_selected keys) (parser source_content) \<noteq> [] \<and> ?dst \<noteq> ?src
           \<longrightarrow> files w' ?dst =
                 Some (FluentSerializer serialize_entry False
                         (filter (\<lambda>e. \<not> is_Junk e) ?D @ ?M))"
    using f2 ne by (simp only: fdst) blast
  show "\<exists>w'. process_dir ?lib keys renaming source_filename destination_filename lang_dir w
              = Inr w'
        \<and> files w' ?src =
            Some (FluentSerializer serialize_entry False (filter (\<lambda>e. \<not> is_Junk e) ?R))
        \<and> (\<forall>t. ?R = [Junk t] \<longrightarrow> files w' ?src = Some [])
        \<and> (filter (is_selected keys) (parser source_content) \<noteq> [] \<and> ?dst \<noteq> ?src
           \<longrightarrow> files w' ?dst =
                 Some (FluentSerializer serialize_entry False
                         (filter (\<lambda>e. \<not> is_Junk e) ?D @ ?M)))"
    using r g1 g2 g3 by blast
qed


theorem default_serializer_omits_junk_witness:
  "files sample_world (path_join ''l10n/pl/'' ''common.ftl'') = Some ''common-button-label=OK;?''
   \<and> filter (\<lambda>e. \<not> is_selected {''common-button-label''} e)
         (sample_parse ''common-button-label=OK;?'') = [Junk ''?'']
   \<and> (\<exists>w'. process_dir sample_default_lib
              {''common-button-label''} None ''common.ftl'' ''new_component.ftl''
              ''l10n/pl/'' sample_world = Inr w'
         \<and> files w' ''l10n/pl/common.ftl'' = Some []
         \<and> files w' ''l10n/pl/new_component.ftl'' = Some ''common-button-label=OK;'')"
proof -
  have src: "files sample_world (path_join ''l10n/pl/'' ''common.ftl'')
               = Some ''common-button-label=OK;?''"
    by (simp add: sample_world_def path_join_def)
  have rem: "filter (\<lambda>e. \<not> is_selected {''common-button-label''} e)
         (sample_parse ''common-button-label=OK;?'') = [Junk ''?'']"
    by (simp add: sample_parse_def is_selected_def)
  have sel: "filter (is_selected {''common-button-label''})
         (sample_parse ''common-button-label=OK;?'') = [Message ''common-button-label'' ''OK'']"
    by (simp add: sample_parse_def is_selected_def)
  have ne: "path_join ''l10n/pl/'' ''new_component.ftl'' \<noteq> path_join ''l10n/pl/'' ''common.ftl''"
    by (simp add: path_join_def)
  have dest: "destination_of (default_fluent sample_parse sample_serialize_entry) sample_world
                (path_join ''l10n/pl/'' ''new_component.ftl'') = []"
    by (simp add: destination_of_def sample_world_def path_join_def)
  from default_serializer_omits_junk [where w = sample_world and lang_dir = "''l10n/pl/''"
      and source_filename = "''common.ftl''" and destination_filename = "''new_component.ftl''"
      and source_content = "''common-button-label=OK;?''" and parser = sample_parse
      and serialize_entry = sample_serialize_entry
      and keys = "{''common-button-label''}" and renaming = None] src
  obtain w' where
    run: "process_dir (default_fluent sample_parse sample_serialize_entry)
              {''common-button-label''} None ''common.ftl'' ''new_component.ftl''
              ''l10n/pl/'' sample_world = Inr w'"
    and junk: "\<forall>t. filter (\<lambda>e. \<not> is_selected {''common-button-label''} e)
                     (sample_parse ''common-button-label=OK;?'') = [Junk t]
              \<longrightarrow> files w' (path_join ''l10n/pl/'' ''common.ftl'') = Some []"
    and dst: "filter (is_selected {''common-button-label''})
                (sample_parse ''common-button-label=OK;?'') \<noteq> []
             \<and> path_join ''l10n/pl/'' ''new_component.ftl'' \<noteq> path_join ''l10n/pl/'' ''common.ftl''
           \<longrightarrow> files w' (path_join ''l10n/pl/'' ''new_component.ftl'') =
                 Some (FluentSerializer sample_serialize_entry False
                         (filter (\<lambda>e. \<not> is_Junk e)
                            (destination_of (default_fluent sample_parse sample_serialize_entry)
                               sample_world (path_join ''l10n/pl/'' ''new_component.ftl''))
                          @ map (rename_entry None)
                              (filter (is_selected {''common-button-label''})
                                 (sample_parse ''common-button-label=OK;?''))))"
    by blast
  have "files w' (path_join ''l10n/pl/'' ''common.ftl'') = Some []"
    using junk rem by blast
  then have f1: "files w' ''l10n/pl/common.ftl'' = Some []"
    by (simp add: path_join_def)
  have "files w' (path_join ''l10n/pl/'' ''new_component.ftl'') =
          Some (FluentSerializer sample_serialize_entry False
                  ([] @ map (rename_entry None) [Message ''common-button-label'' ''OK'']))"
    using dst ne unfolding sel dest by simp
  then have f2: "files w' ''l10n/pl/new_component.ftl'' = Some ''common-button-label=OK;''"
    by (simp add: path_join_def FluentSerializer_def rename_entry_def
          sample_serialize_entry_def)
  show ?thesis
    unfolding sample_default_lib_def using src rem run f1 f2 by blast
qed

section \<open>Aborting the run and skipping a directory\<close>

lemma process_dirs_append:
  "process_dirs lib keys rn sf df (xs @ ys) w =
     (case process_dirs lib keys rn sf df xs w of
        Inl e \<Rightarrow> Inl e
      | Inr w' \<Rightarrow> process_dirs lib keys rn sf df ys w')"
  by (induction xs arbitrary: w) (simp_all split: sum.splits)

lemma process_dir_skip:
  "files w (path_join d sf) = None \<Longrightarrow>
   process_dir lib keys rn sf df d w =
     Inr (w\<lparr>stdout := stdout w @ [''Skipping '' @ d @ '': '' @ quoted sf @ '' not found.'']\<rparr>)"
  by (simp add: process_dir_def path_exists_def print_line_def Let_def)

text \<open>
  Claim C6. When the key-list file does not exist the run ends at once: it prints the
  error line and changes nothing else, so no file is read or written and no directory is
  scanned. When the key-list file exists and the scan of the base directory yields no
  directory, the run ends with one message (that of the empty key list when the list has
  no key, that of the empty scan otherwise), has read the key-list file only, and leaves
  every file as it was.
\<close>

theorem missing_key_file_or_no_directories_aborts:
  "(files w strings_to_move_file = None \<longrightarrow>
      move_and_rename_fluent_strings lib base_dir strings_to_move_file source_filename
        destination_filename rename_keys w
      = Inr (w\<lparr>stdout := stdout w @
               [''Error: The strings list file '' @ quoted strings_to_move_file
                  @ '' does not exist.'']\<rparr>))
   \<and> (files w strings_to_move_file = Some list_text
        \<and> glob_result w (path_join base_dir ''*/'') = [] \<longrightarrow>
      (\<exists>w'. move_and_rename_fluent_strings lib base_dir strings_to_move_file source_filename
               destination_filename rename_keys w = Inr w'
         \<and> files w' = files w
         \<and> stdout w' = stdout w @
             [if keys_of_text list_text = [] then ''No keys to move. Exiting.''
              else ''No language directories found in '' @ quoted base_dir @ ''. Exiting.'']
         \<and> io_log w' = io_log w @
             Read strings_to_move_file #
               (if keys_of_text list_text = [] then [] else [Glob (path_join base_dir ''*/'')])))"
  by (simp add: move_and_rename_fluent_strings_def path_exists_def read_file_def
        print_line_def glob_def Let_def)

theorem missing_key_file_or_no_directories_aborts_witness:
  "files sample_world ''missing.txt'' = None
   \<and> move_and_rename_fluent_strings sample_lib ''l10n'' ''missing.txt'' ''common.ftl''
        ''new_component.ftl'' False sample_world
      = Inr (sample_world\<lparr>stdout :=
               [''Error: The strings list file '' @ quoted ''missing.txt''
                  @ '' does not exist.'']\<rparr>)
   \<and> files sample_world ''keys.txt''
       = Some (''b'' @ [newline] @ '' common-button-label '' @ [newline])
   \<and> glob_result sample_world (path_join ''empty'' ''*/'') = []
   \<and> keys_of_text (''b'' @ [newline] @ '' common-button-label '' @ [newline])
       = [''b'', ''common-button-label'']
   \<and> (\<exists>w'. move_and_rename_fluent_strings sample_lib ''empty'' ''keys.txt'' ''common.ftl''
              ''new_component.ftl'' False sample_world = Inr w'
         \<and> files w' = files sample_world
         \<and> stdout w' = [''No language directories found in '' @ quoted ''empty'' @ ''. Exiting.'']
         \<and> io_log w' = [Read ''keys.txt'', Glob ''empty/*/''])"
proof -
  have k: "keys_of_text (''b'' @ [newline] @ '' common-button-label '' @ [newline])
       = [''b'', ''common-button-label'']"
    by (simp add: keys_of_text_def strip_def is_space_def newline_def)
  have f: "files sample_world ''keys.txt''
       = Some (''b'' @ [newline] @ '' common-button-label '' @ [newline])"
    by (simp add: sample_world_def)
  have g: "glob_result sample_world (path_join ''empty'' ''*/'') = []"
    by (simp add: sample_world_def path_join_def)
  have m: "files sample_world ''missing.txt'' = None"
    by (simp add: sample_world_def)
  note t = missing_key_file_or_no_directories_aborts [where w = sample_world and lib = sample_lib
      and source_filename = "''common.ftl''" and destination_filename = "''new_component.ftl''"
      and rename_keys = False]
  have a: "move_and_rename_fluent_strings sample_lib ''l10n'' ''missing.txt'' ''common.ftl''
        ''new_component.ftl'' False sample_world
      = Inr (sample_world\<lparr>stdout :=
               [''Error: The strings list file '' @ quoted ''missing.txt''
                  @ '' does not exist.'']\<rparr>)"
    using t [where strings_to_move_file = "''missing.txt''" and base_dir = "''l10n''"] m
    by (simp add: sample_world_def)
  from t [where strings_to_move_file = "''keys.txt''" and base_dir = "''empty''"
               and list_text = "''b'' @ [newline] @ '' common-button-label '' @ [newline]"] f g
  obtain w' where
    run: "move_and_rename_fluent_strings sample_lib ''empty'' ''keys.txt'' ''common.ftl''
              ''new_component.ftl'' False sample_world = Inr w'"
    and fw: "files w' = files sample_world"
    and so: "stdout w' = stdout sample_world @
             [if keys_of_text (''b'' @ [newline] @ '' common-button-label '' @ [newline]) = []
              then ''No keys to move. Exiting.''
              else ''No language directories found in '' @ quoted ''empty'' @ ''. Exiting.'']"
    and lg: "io_log w' = io_log sample_world @
             Read ''keys.txt'' #
               (if keys_of_text (''b'' @ [newline] @ '' common-button-label '' @ [newline]) = []
                then [] else [Glob (path_join ''empty'' ''*/'')])"
    by blast
  have so': "stdout w' = [''No language directories found in '' @ quoted ''empty'' @ ''. Exiting.'']"
    using so [unfolded k] by (simp add: sample_world_def)
  have lg': "io_log w' = [Read ''keys.txt'', Glob ''empty/*/'']"
    using lg [unfolded k] by (simp add: sample_world_def path_join_def)
  have b: "\<exists>w'. move_and_rename_fluent_strings sample_lib ''empty'' ''keys.txt'' ''common.ftl''
              ''new_component.ftl'' False sample_world = Inr w'
         \<and> files w' = files sample_world
         \<and> stdout w' = [''No language directories found in '' @ quoted ''empty'' @ ''. Exiting.'']
         \<and> io_log w' = [Read ''keys.txt'', Glob ''empty/*/'']"
    using run fw so' lg' by blast
  show ?thesis using m a f g k b by blast
qed

text \<open>
  Claim C7. A language directory without the source file is skipped: the script prints
  the diagnostic, reads and writes no file, and goes on with the directories that
  follow in the world so reached, whatever directories came before.
\<close>

theorem missing_source_skips_directory:
  "files w (path_join lang_dir source_filename) = None \<longrightarrow>
     (\<exists>w'. process_dir lib keys renaming source_filename destination_filename lang_dir w
              = Inr w'
        \<and> files w' = files w
        \<and> io_log w' = io_log w
        \<and> stdout w' = stdout w @
            [''Skipping '' @ lang_dir @ '': '' @ quoted source_filename @ '' not found.'']
        \<and> process_dirs lib keys renaming source_filename destination_filename
             (lang_dir # language_dirs) w
           = process_dirs lib keys renaming source_filename destination_filename
               language_dirs w'
        \<and> (\<forall>earlier w0.
              process_dirs lib keys renaming source_filename destination_filename earlier w0
                = Inr w
              \<longrightarrow> process_dirs lib keys renaming source_filename destination_filename
                    (earlier @ lang_dir # language_dirs) w0
                  = process_dirs lib keys renaming source_filename destination_filename
                      language_dirs w'))"
  by (simp add: process_dir_skip process_dirs_append)


theorem missing_source_skips_directory_witness:
  "files sample_world (path_join ''l10n/de/'' ''common.ftl'') = None
   \<and> (\<exists>w'. process_dir sample_lib {''b''} None ''common.ftl'' ''new_component.ftl''
              ''l10n/de/'' sample_world = Inr w'
         \<and> files w' = files sample_world
         \<and> io_log w' = []
         \<and> stdout w' = [''Skipping l10n/de/: '' @ quoted ''common.ftl'' @ '' not found.''])
   \<and> (\<exists>w''. process_dirs sample_lib {''b''} None ''common.ftl'' ''new_component.ftl''
               [''l10n/de/'', ''l10n/fr/''] sample_world = Inr w''
         \<and> io_log w'' = [Read ''l10n/fr/common.ftl'', Write ''l10n/fr/common.ftl'' ''a=1;c=3;'']
         \<and> files w'' ''l10n/de/common.ftl'' = None
         \<and> files w'' ''l10n/de/new_component.ftl'' = None)
   \<and> (\<exists>w3. process_dirs sample_lib {''b''} None ''common.ftl'' ''new_component.ftl''
              [''l10n/fr/'', ''l10n/de/''] sample_world = Inr w3
         \<and> io_log w3 = [Read ''l10n/fr/common.ftl'', Write ''l10n/fr/common.ftl'' ''a=1;c=3;'']
         \<and> stdout w3 =
             [newline # ''Processing '' @ quoted ''l10n/fr/common.ftl'' @ ''...'',
              ''No keys found to move in this file.'',
              ''Updated the source file. Operation complete for this language.'',
              ''Skipping l10n/de/: '' @ quoted ''common.ftl'' @ '' not found.''])"
proof -
  have de: "files sample_world (path_join ''l10n/de/'' ''common.ftl'') = None"
    by (simp add: sample_world_def path_join_def)
  from missing_source_skips_directory [where w = sample_world and lang_dir = "''l10n/de/''"
      and source_filename = "''common.ftl''" and destination_filename = "''new_component.ftl''"
      and lib = sample_lib and keys = "{''b''}" and renaming = None
      and language_dirs = "[''l10n/fr/'']"] de
  obtain w' where
    run: "process_dir sample_lib {''b''} None ''common.ftl'' ''new_component.ftl''
              ''l10n/de/'' sample_world = Inr w'"
    and fw: "files w' = files sample_world"
    and lg: "io_log w' = io_log sample_world"
    and so: "stdout w' = stdout sample_world @
               [''Skipping '' @ ''l10n/de/'' @ '': '' @ quoted ''common.ftl'' @ '' not found.'']"
    and rest: "process_dirs sample_lib {''b''} None ''common.ftl'' ''new_component.ftl''
                 [''l10n/de/'', ''l10n/fr/''] sample_world
               = process_dirs sample_lib {''b''} None ''common.ftl'' ''new_component.ftl''
                   [''l10n/fr/''] w'"
    by blast
  have lg0: "io_log w' = []" using lg by (simp add: sample_world_def)
  have so0: "stdout w' = [''Skipping l10n/de/: '' @ quoted ''common.ftl'' @ '' not found.'']"
    using so by (simp add: sample_world_def)
  have fr: "files w' (path_join ''l10n/fr/'' ''common.ftl'') = Some ''a=1;c=3;''"
    by (simp add: fw sample_world_def path_join_def)
  have nm: "moved_of sample_lib {''b''} None ''a=1;c=3;'' = []"
    by (simp add: moved_of_def sample_lib_def sample_parse_def is_selected_def)
  have rm: "serialize sample_lib (remaining_of sample_lib {''b''} ''a=1;c=3;'') = ''a=1;c=3;''"
    by (simp add: remaining_of_def sample_lib_def sample_parse_def is_selected_def)
  have rd: "reads_of w' (path_join ''l10n/fr/'' ''common.ftl'')
              (path_join ''l10n/fr/'' ''new_component.ftl'') = [Read ''l10n/fr/common.ftl'']"
    by (simp add: reads_of_def fw sample_world_def path_join_def)
  have p: "path_join ''l10n/fr/'' ''common.ftl'' = ''l10n/fr/common.ftl''"
    by (simp add: path_join_def)
  have "\<exists>w''. process_dirs sample_lib {''b''} None ''common.ftl'' ''new_component.ftl''
               [''l10n/fr/''] w' = Inr w''
         \<and> io_log w'' = [Read ''l10n/fr/common.ftl'', Write ''l10n/fr/common.ftl'' ''a=1;c=3;'']
         \<and> files w'' ''l10n/de/common.ftl'' = None
         \<and> files w'' ''l10n/de/new_component.ftl'' = None"
    by (simp add: process_dir_none [OF fr nm] rm rd lg0 fw) (simp add: sample_world_def p)
  then have later: "\<exists>w''. process_dirs sample_lib {''b''} None ''common.ftl''
               ''new_component.ftl'' [''l10n/de/'', ''l10n/fr/''] sample_world = Inr w''
         \<and> io_log w'' = [Read ''l10n/fr/common.ftl'', Write ''l10n/fr/common.ftl'' ''a=1;c=3;'']
         \<and> files w'' ''l10n/de/common.ftl'' = None
         \<and> files w'' ''l10n/de/new_component.ftl'' = None"
    by (simp only: rest)
  have frs: "files sample_world (path_join ''l10n/fr/'' ''common.ftl'') = Some ''a=1;c=3;''"
    by (simp add: sample_world_def path_join_def)
  define wf where "wf =
    sample_world\<lparr>files := (files sample_world)
                  (path_join ''l10n/fr/'' ''common.ftl'' \<mapsto>
                     serialize sample_lib (remaining_of sample_lib {''b''} ''a=1;c=3;'')),
               stdout := stdout sample_world @
                 [newline # ''Processing '' @ quoted (path_join ''l10n/fr/'' ''common.ftl'') @ ''...'',
                  ''No keys found to move in this file.'',
                  ''Updated the source file. Operation complete for this language.''],
               io_log := io_log sample_world @
                 reads_of sample_world (path_join ''l10n/fr/'' ''common.ftl'')
                   (path_join ''l10n/fr/'' ''new_component.ftl'') @
                 [Write (path_join ''l10n/fr/'' ''common.ftl'')
                    (serialize sample_lib (remaining_of sample_lib {''b''} ''a=1;c=3;''))]\<rparr>"
  have pf: "process_dir sample_lib {''b''} None ''common.ftl'' ''new_component.ftl''
              ''l10n/fr/'' sample_world = Inr wf"
    unfolding wf_def by (rule process_dir_none [OF frs nm])
  have pfs: "process_dirs sample_lib {''b''} None ''common.ftl'' ''new_component.ftl''
               [''l10n/fr/''] sample_world = Inr wf"
    by (simp add: pf)
  have wde: "files wf (path_join ''l10n/de/'' ''common.ftl'') = None"
    by (simp add: wf_def sample_world_def path_join_def)
  have wlog: "io_log wf = [Read ''l10n/fr/common.ftl'', Write ''l10n/fr/common.ftl'' ''a=1;c=3;'']"
    by (simp add: wf_def rm reads_of_def) (simp add: sample_world_def path_join_def)
  have wout: "stdout wf =
             [newline # ''Processing '' @ quoted ''l10n/fr/common.ftl'' @ ''...'',
              ''No keys found to move in this file.'',
              ''Updated the source file. Operation complete for this language.'']"
    by (simp add: wf_def sample_world_def path_join_def)
  from missing_source_skips_directory [where w = wf and lang_dir = "''l10n/de/''"
      and source_filename = "''common.ftl''" and destination_filename = "''new_component.ftl''"
      and lib = sample_lib and keys = "{''b''}" and renaming = None
      and language_dirs = "[]"] wde
  obtain w3 where
    l3: "io_log w3 = io_log wf"
    and s3: "stdout w3 = stdout wf @
               [''Skipping '' @ ''l10n/de/'' @ '': '' @ quoted ''common.ftl'' @ '' not found.'']"
    and any: "\<forall>earlier w0.
              process_dirs sample_lib {''b''} None ''common.ftl'' ''new_component.ftl'' earlier w0
                = Inr wf
              \<longrightarrow> process_dirs sample_lib {''b''} None ''common.ftl'' ''new_component.ftl''
                    (earlier @ ''l10n/de/'' # []) w0
                  = process_dirs sample_lib {''b''} None ''common.ftl'' ''new_component.ftl''
                      [] w3"
    by blast
  have "process_dirs sample_lib {''b''} None ''common.ftl'' ''new_component.ftl''
          ([''l10n/fr/''] @ ''l10n/de/'' # []) sample_world
        = process_dirs sample_lib {''b''} None ''common.ftl'' ''new_component.ftl'' [] w3"
    using any pfs by blast
  then have r3: "process_dirs sample_lib {''b''} None ''common.ftl'' ''new_component.ftl''
          [''l10n/fr/'', ''l10n/de/''] sample_world = Inr w3"
    by simp
  have l3': "io_log w3 = [Read ''l10n/fr/common.ftl'', Write ''l10n/fr/common.ftl'' ''a=1;c=3;'']"
    by (simp add: l3 wlog)
  have s3': "stdout w3 =
             [newline # ''Processing '' @ quoted ''l10n/fr/common.ftl'' @ ''...'',
              ''No keys found to move in this file.'',
              ''Updated the source file. Operation complete for this language.'',
              ''Skipping l10n/de/: '' @ quoted ''common.ftl'' @ '' not found.'']"
    by (simp add: s3 wout)
  have first: "\<exists>w'. process_dir sample_lib {''b''} None ''common.ftl'' ''new_component.ftl''
              ''l10n/de/'' sample_world = Inr w'
         \<and> files w' = files sample_world
         \<and> io_log w' = []
         \<and> stdout w' = [''Skipping l10n/de/: '' @ quoted ''common.ftl'' @ '' not found.'']"
    using run fw lg0 so0 by blast
  have last: "\<exists>w3. process_dirs sample_lib {''b''} None ''common.ftl'' ''new_component.ftl''
              [''l10n/fr/'', ''l10n/de/''] sample_world = Inr w3
         \<and> io_log w3 = [Read ''l10n/fr/common.ftl'', Write ''l10n/fr/common.ftl'' ''a=1;c=3;'']
         \<and> stdout w3 =
             [newline # ''Processing '' @ quoted ''l10n/fr/common.ftl'' @ ''...'',
              ''No keys found to move in this file.'',
              ''Updated the source file. Operation complete for this language.'',
              ''Skipping l10n/de/: '' @ quoted ''common.ftl'' @ '' not found.'']"
    using r3 l3' s3' by blast
  show ?thesis using de first later last by blast
qed

section \<open>A destination file that does not exist yet\<close>

text \<open>
  Claim C8. When the destination file does not exist and some entry is moved, the
  destination resource starts empty, lines 90 to 95 make it the moved entries and nothing
  else (no separator is allocated), and the destination file is created with the
  serialization of the moved entries after the renaming. The script reads the source
  file only and writes the destination, then the source.
\<close>

theorem absent_destination_created:
  "(files w (path_join lang_dir source_filename) = Some source_content
      \<and> files w (path_join lang_dir destination_filename) = None
      \<and> filter (is_selected keys) (parse lib source_content) \<noteq> []
    \<longrightarrow>
      (\<exists>w'. process_dir lib keys renaming source_filename destination_filename lang_dir w
               = Inr w'
         \<and> files w' (path_join lang_dir destination_filename) =
             Some (serialize lib
                     (map (rename_entry renaming)
                        (filter (is_selected keys) (parse lib source_content))))
         \<and> io_log w' = io_log w @
             [Read (path_join lang_dir source_filename),
              Write (path_join lang_dir destination_filename)
                (serialize lib
                   (map (rename_entry renaming)
                      (filter (is_selected keys) (parse lib source_content)))),
              Write (path_join lang_dir source_filename)
                (serialize lib
                   (filter (\<lambda>e. \<not> is_selected keys e) (parse lib source_content)))]))
   \<and> append_moved moved ([], h) = (moved, h)"
proof (intro conjI impI)
  assume a: "files w (path_join lang_dir source_filename) = Some source_content
      \<and> files w (path_join lang_dir destination_filename) = None
      \<and> filter (is_selected keys) (parse lib source_content) \<noteq> []"
  then have src: "files w (path_join lang_dir source_filename) = Some source_content"
    and dst: "files w (path_join lang_dir destination_filename) = None"
    and some: "moved_of lib keys renaming source_content \<noteq> []"
    by (simp_all add: moved_of_def)
  have ne: "path_join lang_dir destination_filename \<noteq> path_join lang_dir source_filename"
    using src dst by auto
  have D: "destination_of lib w (path_join lang_dir destination_filename) = []"
    using dst by (simp add: destination_of_def)
  show "\<exists>w'. process_dir lib keys renaming source_filename destination_filename lang_dir w
               = Inr w'
         \<and> files w' (path_join lang_dir destination_filename) =
             Some (serialize lib
                     (map (rename_entry renaming)
                        (filter (is_selected keys) (parse lib source_content))))
         \<and> io_log w' = io_log w @
             [Read (path_join lang_dir source_filename),
              Write (path_join lang_dir destination_filename)
                (serialize lib
                   (map (rename_entry renaming)
                      (filter (is_selected keys) (parse lib source_content)))),
              Write (path_join lang_dir source_filename)
                (serialize lib
                   (filter (\<lambda>e. \<not> is_selected keys e) (parse lib source_content)))]"
    using ne dst
    by (simp add: process_dir_some [OF src some] D separator_for_def reads_of_def
          moved_of_def remaining_of_def)
next
  show "append_moved moved ([], h) = (moved, h)"
    by (simp add: append_moved_def)
qed

theorem absent_destination_created_witness:
  "files sample_world (path_join ''l10n/pl/'' ''common.ftl'') = Some ''common-button-label=OK;?''
   \<and> files sample_world (path_join ''l10n/pl/'' ''new_component.ftl'') = None
   \<and> filter (is_selected {''common-button-label''})
         (parse sample_lib ''common-button-label=OK;?'')
       = [Message ''common-button-label'' ''OK'']
   \<and> (\<exists>w'. process_dir sample_lib {''common-button-label''}
              (rename_prefixes True ''common.ftl'' ''new_component.ftl'')
              ''common.ftl'' ''new_component.ftl'' ''l10n/pl/'' sample_world = Inr w'
         \<and> files w' ''l10n/pl/new_component.ftl'' = Some ''new_component-button-label=OK;''
         \<and> io_log w' =
             [Read ''l10n/pl/common.ftl'',
              Write ''l10n/pl/new_component.ftl'' ''new_component-button-label=OK;'',
              Write ''l10n/pl/common.ftl'' ''?''])"
proof -
  have src: "files sample_world (path_join ''l10n/pl/'' ''common.ftl'')
               = Some ''common-button-label=OK;?''"
    by (simp add: sample_world_def path_join_def)
  have dst: "files sample_world (path_join ''l10n/pl/'' ''new_component.ftl'') = None"
    by (simp add: sample_world_def path_join_def)
  have sel: "filter (is_selected {''common-button-label''})
         (parse sample_lib ''common-button-label=OK;?'')
       = [Message ''common-button-label'' ''OK'']"
    by (simp add: sample_lib_def sample_parse_def is_selected_def)
  have rem: "filter (\<lambda>e. \<not> is_selected {''common-button-label''} e)
         (parse sample_lib ''common-button-label=OK;?'')
       = [Junk ''?'']"
    by (simp add: sample_lib_def sample_parse_def is_selected_def)
  have rn: "rename_prefixes True ''common.ftl'' ''new_component.ftl''
              = Some (''common'', ''new_component'')"
    by (simp add: rename_prefixes_def splitext_def rfind_def)
  have mv: "map (rename_entry (Some (''common'', ''new_component'')))
              [Message ''common-button-label'' ''OK'']
            = [Message ''new_component-button-label'' ''OK'']"
    by (simp add: rename_entry_def)
  have ne: "filter (is_selected {''common-button-label''})
         (parse sample_lib ''common-button-label=OK;?'') \<noteq> []"
    by (simp add: sel)
  from absent_destination_created [where w = sample_world and lang_dir = "''l10n/pl/''"
      and source_filename = "''common.ftl''" and destination_filename = "''new_component.ftl''"
      and source_content = "''common-button-label=OK;?''" and lib = sample_lib
      and keys = "{''common-button-label''}"
      and renaming = "rename_prefixes True ''common.ftl'' ''new_component.ftl''"]
    src dst ne
  obtain w' where
    run: "process_dir sample_lib {''common-button-label''}
              (rename_prefixes True ''common.ftl'' ''new_component.ftl'')
              ''common.ftl'' ''new_component.ftl'' ''l10n/pl/'' sample_world = Inr w'"
    and f: "files w' (path_join ''l10n/pl/'' ''new_component.ftl'') =
             Some (serialize sample_lib
                     (map (rename_entry (rename_prefixes True ''common.ftl'' ''new_component.ftl''))
                        (filter (is_selected {''common-button-label''})
                           (parse sample_lib ''common-button-label=OK;?''))))"
    and l: "io_log w' = io_log sample_world @
             [Read (path_join ''l10n/pl/'' ''common.ftl''),
              Write (path_join ''l10n/pl/'' ''new_component.ftl'')
                (serialize sample_lib
                   (map (rename_entry (rename_prefixes True ''common.ftl'' ''new_component.ftl''))
                      (filter (is_selected {''common-button-label''})
                         (parse sample_lib ''common-button-label=OK;?'')))),
              Write (path_join ''l10n/pl/'' ''common.ftl'')
                (serialize sample_lib
                   (filter (\<lambda>e. \<not> is_selected {''common-button-label''} e)
                      (parse sample_lib ''common-button-label=OK;?'')))]"
    by blast
  have f': "files w' ''l10n/pl/new_component.ftl'' = Some ''new_component-button-label=OK;''"
    using f [unfolded sel rem rn mv] by (simp add: path_join_def sample_lib_def)
  have l': "io_log w' =
             [Read ''l10n/pl/common.ftl'',
              Write ''l10n/pl/new_component.ftl'' ''new_component-button-label=OK;'',
              Write ''l10n/pl/common.ftl'' ''?'']"
    using l [unfolded sel rem rn mv] by (simp add: path_join_def sample_lib_def sample_world_def)
  show ?thesis using src dst sel run f' l' by blast
qed

section \<open>Running again, and directories where nothing is moved\<close>




text \<open>
  Claim C10. In a processed directory where no entry is selected, the only write is
  that of the source file, which is overwritten with the serialization of the entries
  that remain, whether or not that differs from the text it had. The destination file
  is read at most: being another file than the source, it stays absent or keeps its
  content.
\<close>

theorem nothing_moved_rewrites_source_only:
  "files w (path_join lang_dir source_filename) = Some source_content
     \<and> filter (is_selected keys) (parse lib source_content) = []
   \<longrightarrow>
     (\<exists>w'. process_dir lib keys renaming source_filename destination_filename lang_dir w
              = Inr w'
        \<and> io_log w' = io_log w @
            Read (path_join lang_dir source_filename)
            # (if files w (path_join lang_dir destination_filename) = None then []
               else [Read (path_join lang_dir destination_filename)])
            @ [Write (path_join lang_dir source_filename)
                 (serialize lib
                    (filter (\<lambda>e. \<not> is_selected keys e) (parse lib source_content)))]
        \<and> files w' =
            (files w)(path_join lang_dir source_filename \<mapsto>
               serialize lib
                 (filter (\<lambda>e. \<not> is_selected keys e) (parse lib source_content)))
        \<and> (path_join lang_dir destination_filename \<noteq> path_join lang_dir source_filename
           \<longrightarrow> files w' (path_join lang_dir destination_filename)
                 = files w (path_join lang_dir destination_filename)))"
proof
  assume a: "files w (path_join lang_dir source_filename) = Some source_content
     \<and> filter (is_selected keys) (parse lib source_content) = []"
  then have src: "files w (path_join lang_dir source_filename) = Some source_content"
    and none: "moved_of lib keys renaming source_content = []"
    by (simp_all add: moved_of_def)
  show "\<exists>w'. process_dir lib keys renaming source_filename destination_filename lang_dir w
              = Inr w'
        \<and> io_log w' = io_log w @
            Read (path_join lang_dir source_filename)
            # (if files w (path_join lang_dir destination_filename) = None then []
               else [Read (path_join lang_dir destination_filename)])
            @ [Write (path_join lang_dir source_filename)
                 (serialize lib
                    (filter (\<lambda>e. \<not> is_selected keys e) (parse lib source_content)))]
        \<and> files w' =
            (files w)(path_join lang_dir source_filename \<mapsto>
               serialize lib
                 (filter (\<lambda>e. \<not> is_selected keys e) (parse lib source_content)))
        \<and> (path_join lang_dir destination_filename \<noteq> path_join lang_dir source_filename
           \<longrightarrow> files w' (path_join lang_dir destination_filename)
                 = files w (path_join lang_dir destination_filename))"
    by (simp add: process_dir_none [OF src none] remaining_of_def reads_of_def)
qed

theorem nothing_moved_rewrites_source_only_witness:
  "files sample_world (path_join ''l10n/pl/'' ''common.ftl'') = Some ''common-button-label=OK;?''
   \<and> filter (is_selected {''b''}) (parse sample_lib ''common-button-label=OK;?'') = []
   \<and> path_join ''l10n/pl/'' ''new_component.ftl'' \<noteq> path_join ''l10n/pl/'' ''common.ftl''
   \<and> (\<exists>w'. process_dir sample_lib {''b''} None ''common.ftl'' ''new_component.ftl''
              ''l10n/pl/'' sample_world = Inr w'
         \<and> io_log w' =
             [Read ''l10n/pl/common.ftl'',
              Write ''l10n/pl/common.ftl'' ''common-button-label=OK;?'']
         \<and> files w' ''l10n/pl/common.ftl'' = Some ''common-button-label=OK;?''
         \<and> files w' ''l10n/pl/new_component.ftl'' = None)"
proof -
  have src: "files sample_world (path_join ''l10n/pl/'' ''common.ftl'')
               = Some ''common-button-label=OK;?''"
    by (simp add: sample_world_def path_join_def)
  have es: "parse sample_lib ''common-button-label=OK;?''
              = [Message ''common-button-label'' ''OK'', Junk ''?'']"
    by (simp add: sample_lib_def sample_parse_def)
  have sel: "filter (is_selected {''b''}) (parse sample_lib ''common-button-label=OK;?'') = []"
    by (simp add: es is_selected_def)
  have rem: "filter (\<lambda>e. \<not> is_selected {''b''} e) (parse sample_lib ''common-button-label=OK;?'')
               = [Message ''common-button-label'' ''OK'', Junk ''?'']"
    by (simp add: es is_selected_def)
  have ne: "path_join ''l10n/pl/'' ''new_component.ftl'' \<noteq> path_join ''l10n/pl/'' ''common.ftl''"
    by (simp add: path_join_def)
  have dst: "files sample_world (path_join ''l10n/pl/'' ''new_component.ftl'') = None"
    by (simp add: sample_world_def path_join_def)
  from nothing_moved_rewrites_source_only [where w = sample_world and lang_dir = "''l10n/pl/''"
      and source_filename = "''common.ftl''" and destination_filename = "''new_component.ftl''"
      and source_content = "''common-button-label=OK;?''" and lib = sample_lib
      and keys = "{''b''}" and renaming = None] src sel
  obtain w' where
    run: "process_dir sample_lib {''b''} None ''common.ftl'' ''new_component.ftl''
              ''l10n/pl/'' sample_world = Inr w'"
    and l: "io_log w' = io_log sample_world @
            Read (path_join ''l10n/pl/'' ''common.ftl'')
            # (if files sample_world (path_join ''l10n/pl/'' ''new_component.ftl'') = None then []
               else [Read (path_join ''l10n/pl/'' ''new_component.ftl'')])
            @ [Write (path_join ''l10n/pl/'' ''common.ftl'')
                 (serialize sample_lib
                    (filter (\<lambda>e. \<not> is_selected {''b''} e)
                       (parse sample_lib ''common-button-label=OK;?'')))]"
    and f: "files w' =
            (files sample_world)(path_join ''l10n/pl/'' ''common.ftl'' \<mapsto>
               serialize sample_lib
                 (filter (\<lambda>e. \<not> is_selected {''b''} e)
                    (parse sample_lib ''common-button-label=OK;?'')))"
    and d: "path_join ''l10n/pl/'' ''new_component.ftl'' \<noteq> path_join ''l10n/pl/'' ''common.ftl''
           \<longrightarrow> files w' (path_join ''l10n/pl/'' ''new_component.ftl'')
                 = files sample_world (path_join ''l10n/pl/'' ''new_component.ftl'')"
    by blast
  have l': "io_log w' =
             [Read ''l10n/pl/common.ftl'',
              Write ''l10n/pl/common.ftl'' ''common-button-label=OK;?'']"
    using l [unfolded rem dst] by (simp add: path_join_def sample_lib_def sample_world_def)
  have f1: "files w' ''l10n/pl/common.ftl'' = Some ''common-button-label=OK;?''"
    using f [unfolded rem] by (simp add: path_join_def sample_lib_def)
  have f2: "files w' ''l10n/pl/new_component.ftl'' = None"
    using d ne dst by (simp add: path_join_def)
  show ?thesis using src sel ne run l' f1 f2 by blast
qed

end
